theory Spec2Isabelle
  imports Complex_Main "HOL-Library.Sublist"
begin

section \<open>Python values used by the backend\<close>

text \<open>
  The backend (\<^verbatim>\<open>src/backend/app.py\<close>) is a Flask application with four stages: a URL
  resolver, a transcript fetcher, three calls to a chat-completion provider, and the
  parsing of the provider's answers. A Python \<^verbatim>\<open>str\<close> is modelled as a \<open>string\<close>, one
  \<open>char\<close> standing for one character of the Python string, so \<open>length\<close> is Python's
  \<^verbatim>\<open>len\<close> for text whose characters lie among the 256 values of \<open>char\<close>.
\<close>

subsection \<open>Exceptions\<close>

text \<open>
  One constructor for each exception class that a handler of the source tells apart; the
  argument is the text \<^verbatim>\<open>str(e)\<close>. \<open>RecursionError\<close> is what the JSON decoder raises
  on a text nested deeper than the interpreter's recursion limit. \<open>OtherError\<close> is any
  other exception class that no \<^verbatim>\<open>except\<close> clause of the source names.
\<close>

datatype py_exc =
    Exception string
  | JSONDecodeError string
  | AttributeError string
  | IndexError string
  | TypeError string
  | TranscriptsDisabled string
  | NoTranscriptFound string
  | VideoUnavailable string
  | RecursionError string
  | OtherError string

fun str_exc :: "py_exc \<Rightarrow> string" where
  "str_exc (Exception m) = m"
| "str_exc (JSONDecodeError m) = m"
| "str_exc (AttributeError m) = m"
| "str_exc (IndexError m) = m"
| "str_exc (TypeError m) = m"
| "str_exc (TranscriptsDisabled m) = m"
| "str_exc (NoTranscriptFound m) = m"
| "str_exc (VideoUnavailable m) = m"
| "str_exc (RecursionError m) = m"
| "str_exc (OtherError m) = m"

subsection \<open>String methods\<close>

text \<open>
  \<^verbatim>\<open>str.isspace\<close> on one character, for the characters below 256: tab, line feed,
  vertical tab, form feed, carriage return, the four separators 28 to 31, space, next
  line (133) and no-break space (160).
\<close>

definition is_space :: "char \<Rightarrow> bool" where
  "is_space c = (of_char c \<in> {9, 10, 11, 12, 13, 28, 29, 30, 31, 32, 133, 160 :: nat})"

text \<open>\<^verbatim>\<open>s.strip()\<close>: leading and trailing whitespace removed.\<close>

definition strip :: "string \<Rightarrow> string" where
  "strip s = rev (dropWhile is_space (rev (dropWhile is_space s)))"

text \<open>
  \<^verbatim>\<open>s.find(c)\<close> and \<^verbatim>\<open>s.rfind(c)\<close> for a one-character needle: the lowest, respectively
  highest, index of \<open>c\<close>, and \<open>-1\<close> when \<open>c\<close> does not occur.
\<close>

fun py_find :: "char \<Rightarrow> string \<Rightarrow> int" where
  "py_find c [] = -1"
| "py_find c (x # xs) =
     (if x = c then 0 else (let r = py_find c xs in if r = -1 then -1 else r + 1))"

fun py_rfind :: "char \<Rightarrow> string \<Rightarrow> int" where
  "py_rfind c [] = -1"
| "py_rfind c (x # xs) =
     (let r = py_rfind c xs in if r \<noteq> -1 then r + 1 else if x = c then 0 else -1)"

text \<open>
  The slice \<^verbatim>\<open>s[a:b]\<close>: a negative bound counts from the end, every bound is clamped to
  \<open>0 .. len(s)\<close>, and the slice is empty when the upper bound is not above the lower one.
\<close>

definition slice_bound :: "nat \<Rightarrow> int \<Rightarrow> nat" where
  "slice_bound n i = (if i < 0 then nat (max 0 (int n + i)) else min (nat i) n)"

definition py_slice :: "'a list \<Rightarrow> int \<Rightarrow> int \<Rightarrow> 'a list" where
  "py_slice s a b =
     (let lo = slice_bound (length s) a; hi = slice_bound (length s) b
      in take (hi - lo) (drop lo s))"

text \<open>\<^verbatim>\<open>sep.join(parts)\<close>.\<close>

fun join :: "string \<Rightarrow> string list \<Rightarrow> string" where
  "join sep [] = []"
| "join sep [x] = x"
| "join sep (x # y # ys) = x @ sep @ join sep (y # ys)"

subsection \<open>JSON values\<close>

text \<open>
  The values that \<^verbatim>\<open>json.loads\<close> and \<^verbatim>\<open>request.get_json\<close> produce and \<^verbatim>\<open>jsonify\<close>
  consumes. A \<^verbatim>\<open>dict\<close> is the list of its items in insertion order, looked up with
  \<open>map_of\<close>. Floating-point numbers are left out.
\<close>

datatype json =
    JNull
  | JBool bool
  | JInt int
  | JString string
  | JArray "json list"
  | JObject "(string \<times> json) list"

text \<open>Truth value testing (\<^verbatim>\<open>if not x\<close>).\<close>

fun truthy :: "json \<Rightarrow> bool" where
  "truthy JNull = False"
| "truthy (JBool b) = b"
| "truthy (JInt i) = (i \<noteq> 0)"
| "truthy (JString s) = (s \<noteq> [])"
| "truthy (JArray xs) = (xs \<noteq> [])"
| "truthy (JObject kvs) = (kvs \<noteq> [])"

fun type_name :: "json \<Rightarrow> string" where
  "type_name JNull = ''NoneType''"
| "type_name (JBool b) = ''bool''"
| "type_name (JInt i) = ''int''"
| "type_name (JString s) = ''str''"
| "type_name (JArray xs) = ''list''"
| "type_name (JObject kvs) = ''dict''"

text \<open>
  \<^verbatim>\<open>data.get(key, default)\<close>. Only a \<^verbatim>\<open>dict\<close> has the method; on any other value the
  attribute lookup raises \<^verbatim>\<open>AttributeError\<close>.
\<close>

fun dict_get :: "json \<Rightarrow> string \<Rightarrow> json \<Rightarrow> py_exc + json" where
  "dict_get (JObject kvs) key dflt =
     (case map_of kvs key of Some v \<Rightarrow> Inr v | None \<Rightarrow> Inr dflt)"
| "dict_get v key dflt =
     Inl (AttributeError ([CHR 0x27] @ type_name v @ [CHR 0x27] @ '' object has no attribute ''
            @ [CHR 0x27] @ ''get'' @ [CHR 0x27]))"

section \<open>URL resolver\<close>

subsection \<open>Regular expressions with backtracking\<close>

text \<open>
  The fragment of Python's \<^verbatim>\<open>re\<close> syntax that the two patterns of \<^verbatim>\<open>extract_video_id\<close>
  use: literal text, the character class \<^verbatim>\<open>[^...]\<close>, the dot (any character but a line
  feed), sequence, alternation, the greedy repetitions \<^verbatim>\<open>*\<close> and \<^verbatim>\<open>+\<close> of a single
  character matcher, and the capturing group. The patterns have one capturing group only.
\<close>

datatype atom = NoneOf string | Dot

datatype rx =
    Lit string
  | Seq rx rx
  | Alt rx rx
  | Star atom
  | Plus atom
  | Group rx
  | NonCapturing rx

fun accepts :: "atom \<Rightarrow> char \<Rightarrow> bool" where
  "accepts (NoneOf cs) c = (c \<notin> set cs)"
| "accepts Dot c = (c \<noteq> CHR 0x0A)"

text \<open>
  \<open>splits p s\<close>: the ways of taking a run of characters satisfying \<open>p\<close> off the front
  of \<open>s\<close>, as pairs of the run and the rest, longest run first: the order in which a
  greedy repetition tries them.
\<close>

fun splits :: "(char \<Rightarrow> bool) \<Rightarrow> string \<Rightarrow> (string \<times> string) list" where
  "splits p [] = [([], [])]"
| "splits p (c # cs) =
     (if p c then map (\<lambda>(run, rest). (c # run, rest)) (splits p cs) @ [([], c # cs)]
      else [([], c # cs)])"

text \<open>
  \<open>matches r s\<close>: every way in which \<open>r\<close> matches at the start of \<open>s\<close>, as pairs of the
  text captured by the group (if the group took part) and the input left over, in the
  order in which the backtracking matcher tries them. The first element is the match
  that \<^verbatim>\<open>re\<close> reports.
\<close>

fun matches :: "rx \<Rightarrow> string \<Rightarrow> (string option \<times> string) list" where
  "matches (Lit p) s = (if prefix p s then [(None, drop (length p) s)] else [])"
| "matches (Seq r1 r2) s =
     concat (map (\<lambda>(g1, rest1).
                    map (\<lambda>(g2, rest2). (case g2 of None \<Rightarrow> g1 | Some g \<Rightarrow> Some g, rest2))
                        (matches r2 rest1))
                 (matches r1 s))"
| "matches (Alt r1 r2) s = matches r1 s @ matches r2 s"
| "matches (Star a) s = map (\<lambda>(run, rest). (None, rest)) (splits (accepts a) s)"
| "matches (Plus a) s =
     map (\<lambda>(run, rest). (None, rest)) (filter (\<lambda>(run, rest). run \<noteq> []) (splits (accepts a) s))"
| "matches (Group r) s =
     map (\<lambda>(g, rest). (Some (take (length s - length rest) s), rest)) (matches r s)"
| "matches (NonCapturing r) s = matches r s"

text \<open>
  \<^verbatim>\<open>re.search(pattern, s)\<close> followed by \<^verbatim>\<open>match.group(1)\<close>: the pattern is tried at every
  position from the left, the end of the string included; \<open>None\<close> when it matches
  nowhere, otherwise the value of group 1 (itself \<open>None\<close> when the group took no part).
\<close>

fun search :: "rx \<Rightarrow> string \<Rightarrow> string option option" where
  "search r [] = (case matches r [] of [] \<Rightarrow> None | m # _ \<Rightarrow> Some (fst m))"
| "search r (c # cs) =
     (case matches r (c # cs) of [] \<Rightarrow> search r cs | m # _ \<Rightarrow> Some (fst m))"

subsection \<open>The patterns and the resolver\<close>

text \<open>
  \<^verbatim>\<open>(?:youtube\.com\/watch\?v=|youtu\.be\/|youtube\.com\/embed\/)([^&\n?#]+)\<close> and
  \<^verbatim>\<open>youtube\.com\/watch\?.*v=([^&\n?#]+)\<close>; \<open>v_parameter\<close> is the end \<^verbatim>\<open>v=([^&\n?#]+)\<close> of the
  second one.
\<close>

definition id_class :: atom where
  "id_class = NoneOf ''&\<newline>?#''"

definition pattern1 :: rx where
  "pattern1 =
     Seq (NonCapturing (Alt (Lit ''youtube.com/watch?v='')
                       (Alt (Lit ''youtu.be/'') (Lit ''youtube.com/embed/''))))
         (Group (Plus id_class))"

definition v_parameter :: rx where
  "v_parameter = Seq (Lit ''v='') (Group (Plus id_class))"

definition pattern2 :: rx where
  "pattern2 = Seq (Lit ''youtube.com/watch?'') (Seq (Star Dot) v_parameter)"

definition patterns :: "rx list" where
  "patterns = [pattern1, pattern2]"

text \<open>The loop over the patterns: the first pattern that matches decides the result.\<close>

fun first_match :: "rx list \<Rightarrow> string \<Rightarrow> string option" where
  "first_match [] url = None"
| "first_match (pattern # rest) url =
     (case search pattern url of Some g \<Rightarrow> g | None \<Rightarrow> first_match rest url)"

definition extract_video_id :: "string \<Rightarrow> string option" where
  "extract_video_id url = first_match patterns url"

section \<open>Transcript fetcher\<close>

text \<open>
  The transcript provider (\<^verbatim>\<open>youtube_transcript_api\<close>) is outside the repository; it is
  a parameter. \<open>'tl\<close> is the provider's transcript list object and \<open>'tr\<close> one of its
  tracks. Each call either returns or raises. \<open>tracks\<close> is the iteration order of the
  list object (\<^verbatim>\<open>list(transcript_list)\<close>). Of a caption fragment the code reads the
  \<^verbatim>\<open>'text'\<close> entry only, the field \<open>caption\<close> here.
\<close>

record fragment =
  caption :: string

record ('tl, 'tr) transcript_api =
  list_transcripts :: "string \<Rightarrow> py_exc + 'tl"
  find_transcript :: "'tl \<Rightarrow> string list \<Rightarrow> py_exc + 'tr"
  tracks :: "'tl \<Rightarrow> 'tr list"
  fetch :: "'tr \<Rightarrow> py_exc + fragment list"

text \<open>
  The inner \<^verbatim>\<open>try\<close>: the English track, and after any failure of that lookup (the
  \<^verbatim>\<open>except\<close> is bare) the first track of the list; indexing an empty list raises.
\<close>

definition choose_track :: "('tl, 'tr) transcript_api \<Rightarrow> 'tl \<Rightarrow> py_exc + 'tr" where
  "choose_track api transcript_list =
     (case find_transcript api transcript_list [''en''] of
        Inr transcript \<Rightarrow> Inr transcript
      | Inl _ \<Rightarrow>
          (case tracks api transcript_list of
             [] \<Rightarrow> Inl (IndexError ''list index out of range'')
           | transcript # _ \<Rightarrow> Inr transcript))"

text \<open>The two \<^verbatim>\<open>except\<close> clauses of the outer \<^verbatim>\<open>try\<close>, in their order.\<close>

fun transcript_failure :: "py_exc \<Rightarrow> py_exc" where
  "transcript_failure (TranscriptsDisabled m) = Exception ''No transcript available for this video.''"
| "transcript_failure (NoTranscriptFound m) = Exception ''No transcript available for this video.''"
| "transcript_failure (VideoUnavailable m) = Exception ''No transcript available for this video.''"
| "transcript_failure e = Exception (''Failed to get transcript: '' @ str_exc e)"

definition get_youtube_transcript :: "('tl, 'tr) transcript_api \<Rightarrow> string \<Rightarrow> py_exc + string" where
  "get_youtube_transcript api video_id =
     (case
        (case list_transcripts api video_id of
           Inl e \<Rightarrow> Inl e
         | Inr transcript_list \<Rightarrow>
             (case choose_track api transcript_list of
                Inl e \<Rightarrow> Inl e
              | Inr transcript \<Rightarrow>
                  (case fetch api transcript of
                     Inl e \<Rightarrow> Inl e
                   | Inr transcript_data \<Rightarrow> Inr (join '' '' (map caption transcript_data)))))
      of
        Inl e \<Rightarrow> Inl (transcript_failure e)
      | Inr full_text \<Rightarrow> Inr full_text)"

section \<open>Calls to the chat-completion provider\<close>

text \<open>
  The environment is a map from variable names to values; \<^verbatim>\<open>os.getenv(name, default)\<close>
  reads it.
\<close>

type_synonym env = "string \<rightharpoonup> string"

definition getenv :: "env \<Rightarrow> string \<Rightarrow> string \<Rightarrow> string" where
  "getenv env name dflt = (case env name of Some v \<Rightarrow> v | None \<Rightarrow> dflt)"

text \<open>
  The arguments of \<^verbatim>\<open>openai.ChatCompletion.create\<close>; a message is a pair of its role and
  its content, and the temperature \<^verbatim>\<open>0.7\<close> is the rational number it denotes.
\<close>

record chat_request =
  model :: string
  messages :: "(string \<times> string) list"
  max_tokens :: nat
  temperature :: rat

text \<open>
  The provider is a parameter: for a request, either the exception raised by the call or
  by the access \<^verbatim>\<open>response.choices[0].message.content\<close>, or that content, \<open>None\<close> when
  it is null.
\<close>

type_synonym llm = "chat_request \<Rightarrow> py_exc + string option"

text \<open>What a handler does besides returning: the requests it sends and the lines it prints.\<close>

datatype effect = ChatCompletion chat_request | Printed string

text \<open>
  The statements that follow the call in each of the three functions: an answer that is
  null or empty raises (\<^verbatim>\<open>if not content\<close>), otherwise it is stripped.
\<close>

definition read_content :: "string option \<Rightarrow> py_exc + string" where
  "read_content content =
     (case content of
        None \<Rightarrow> Inl (Exception ''No content received from AI'')
      | Some c \<Rightarrow> if c = [] then Inl (Exception ''No content received from AI'') else Inr (strip c))"

subsection \<open>Summary\<close>

definition length_instructions :: "(string \<times> string) list" where
  "length_instructions =
     [(''short'', ''in 2-3 sentences''),
      (''medium'', ''in 1-2 paragraphs''),
      (''long'', ''in 3-4 paragraphs with detailed analysis'')]"

definition length_instruction :: "string \<Rightarrow> string" where
  "length_instruction length_name =
     (case map_of length_instructions length_name of Some i \<Rightarrow> i | None \<Rightarrow> ''in 1-2 paragraphs'')"

text \<open>
  The f-string of \<^verbatim>\<open>generate_summary_with_ai\<close>, one line of the source per line, with its
  two holes as arguments. The remark after the second hole is inside the string literal
  and is part of the prompt.
\<close>

definition summary_prompt :: "string \<Rightarrow> string \<Rightarrow> string" where
  \<open>summary_prompt instruction excerpt =
     ''\<newline>'' @
     ''        Summarize the following YouTube video transcript '' @ instruction @ ''.\<newline>'' @
     ''        \<newline>'' @
     ''        Transcript:\<newline>'' @
     ''        '' @ excerpt @ ''  # Limit to first 4000 characters to avoid token limits\<newline>'' @
     ''        \<newline>'' @
     ''        Please provide a comprehensive summary that captures the main points, key insights, and important details.\<newline>'' @
     ''        ''\<close>

definition summary_request :: "env \<Rightarrow> string \<Rightarrow> string \<Rightarrow> chat_request" where
  "summary_request env transcript length_name =
     \<lparr> model = getenv env ''OPENAI_MODEL'' ''gpt-3.5-turbo'',
       messages = [(''user'', summary_prompt (length_instruction length_name) (py_slice transcript 0 4000))],
       max_tokens = 500,
       temperature = 7 / 10 \<rparr>"

text \<open>
  \<^verbatim>\<open>generate_summary_with_ai(transcript, length)\<close>, the parameter \<^verbatim>\<open>length\<close> being
  \<open>length_name\<close> here. Every exception raised in the body is
  caught and raised again as \<^verbatim>\<open>Exception("Failed to generate summary: ...")\<close>. The second
  component is the request sent.
\<close>

definition generate_summary_with_ai ::
  "env \<Rightarrow> llm \<Rightarrow> string \<Rightarrow> string \<Rightarrow> (py_exc + string) \<times> effect list" where
  "generate_summary_with_ai env llm transcript length_name =
     (let request = summary_request env transcript length_name in
      (case
         (case llm request of
            Inl e \<Rightarrow> Inl e
          | Inr content \<Rightarrow> read_content content)
       of
         Inl e \<Rightarrow> Inl (Exception (''Failed to generate summary: '' @ str_exc e))
       | Inr summary \<Rightarrow> Inr summary,
       [ChatCompletion request]))"

subsection \<open>Quiz and matching pairs\<close>

definition quiz_prompt :: "string \<Rightarrow> string" where
  \<open>quiz_prompt summary =
     ''\<newline>'' @
     ''        Based on the following summary, generate 5 multiple choice questions.\<newline>'' @
     ''        \<newline>'' @
     ''        Summary:\<newline>'' @
     ''        '' @ summary @ ''\<newline>'' @
     ''        \<newline>'' @
     ''        Return the questions in this exact JSON format:\<newline>'' @
     ''        {\<newline>'' @
     ''            "questions": [\<newline>'' @
     ''                {\<newline>'' @
     ''                    "question": "Question text here?",\<newline>'' @
     ''                    "options": ["Option A", "Option B", "Option C", "Option D"],\<newline>'' @
     ''                    "answer": "Correct option text"\<newline>'' @
     ''                }\<newline>'' @
     ''            ]\<newline>'' @
     ''        }\<newline>'' @
     ''        \<newline>'' @
     ''        Make sure the questions test understanding of key concepts from the summary.\<newline>'' @
     ''        ''\<close>

definition pairs_prompt :: "string \<Rightarrow> string" where
  \<open>pairs_prompt summary =
     ''\<newline>'' @
     ''        Based on the following summary, generate 5 term-definition pairs for a matching game.\<newline>'' @
     ''        \<newline>'' @
     ''        Summary:\<newline>'' @
     ''        '' @ summary @ ''\<newline>'' @
     ''        \<newline>'' @
     ''        Return the pairs in this exact JSON format:\<newline>'' @
     ''        {\<newline>'' @
     ''            "pairs": [\<newline>'' @
     ''                {\<newline>'' @
     ''                    "term": "Term here",\<newline>'' @
     ''                    "definition": "Definition here"\<newline>'' @
     ''                }\<newline>'' @
     ''            ]\<newline>'' @
     ''        }\<newline>'' @
     ''        \<newline>'' @
     ''        Choose important terms and concepts from the summary that would be good for learning.\<newline>'' @
     ''        ''\<close>

definition quiz_request :: "env \<Rightarrow> string \<Rightarrow> chat_request" where
  "quiz_request env summary =
     \<lparr> model = getenv env ''OPENAI_MODEL'' ''gpt-3.5-turbo'',
       messages = [(''user'', quiz_prompt summary)],
       max_tokens = 800,
       temperature = 7 / 10 \<rparr>"

definition pairs_request :: "env \<Rightarrow> string \<Rightarrow> chat_request" where
  "pairs_request env summary =
     \<lparr> model = getenv env ''OPENAI_MODEL'' ''gpt-3.5-turbo'',
       messages = [(''user'', pairs_prompt summary)],
       max_tokens = 600,
       temperature = 7 / 10 \<rparr>"

text \<open>
  \<^verbatim>\<open>json.loads\<close> is a parameter: for a text, the decoded value or the exception raised:
  \<open>JSONDecodeError\<close> when the decoder finds the text not to be a JSON document,
  \<open>RecursionError\<close> when the nesting exhausts the recursion limit first.
\<close>

type_synonym loads = "string \<Rightarrow> py_exc + json"

definition fallback_questions :: json where
  "fallback_questions =
     JArray [JObject [(''question'', JString ''What is the main topic discussed in the video?''),
                      (''options'', JArray [JString ''Topic A'', JString ''Topic B'',
                                           JString ''Topic C'', JString ''Topic D'']),
                      (''answer'', JString ''Topic A'')]]"

definition fallback_pairs :: json where
  "fallback_pairs =
     JArray [JObject [(''term'', JString ''Key Concept''),
                      (''definition'', JString ''An important idea from the video'')]]"

text \<open>
  The inner \<^verbatim>\<open>try\<close> of \<^verbatim>\<open>generate_quiz_with_ai\<close> (lines 130 to 148), which
  \<^verbatim>\<open>generate_matching_pairs_with_ai\<close> repeats (lines 191 to 208) with another field name
  and another fallback: the text from the first opening brace to the last closing brace
  is decoded and the field read, with the empty list as default. The \<^verbatim>\<open>except\<close> clause
  names \<^verbatim>\<open>json.JSONDecodeError\<close> only; every other exception leaves the block.
\<close>

definition extract_field :: "loads \<Rightarrow> string \<Rightarrow> json \<Rightarrow> string \<Rightarrow> py_exc + json" where
  "extract_field loads field fallback content =
     (let start_idx = py_find CHR ''{'' content;
          end_idx = py_rfind CHR ''}'' content + 1
      in case
           (if start_idx \<noteq> -1 \<and> end_idx \<noteq> 0 then
              (case loads (py_slice content start_idx end_idx) of
                 Inl e \<Rightarrow> Inl e
               | Inr data \<Rightarrow> dict_get data field (JArray []))
            else Inl (Exception ''No JSON found in response''))
         of
           Inl (JSONDecodeError m) \<Rightarrow> Inr fallback
         | r \<Rightarrow> r)"

definition generate_quiz_with_ai ::
  "env \<Rightarrow> llm \<Rightarrow> loads \<Rightarrow> string \<Rightarrow> (py_exc + json) \<times> effect list" where
  "generate_quiz_with_ai env llm loads summary =
     (let request = quiz_request env summary in
      (case
         (case llm request of
            Inl e \<Rightarrow> Inl e
          | Inr content \<Rightarrow>
              (case read_content content of
                 Inl e \<Rightarrow> Inl e
               | Inr content \<Rightarrow> extract_field loads ''questions'' fallback_questions content))
       of
         Inl e \<Rightarrow> Inl (Exception (''Failed to generate quiz: '' @ str_exc e))
       | Inr questions \<Rightarrow> Inr questions,
       [ChatCompletion request]))"

definition generate_matching_pairs_with_ai ::
  "env \<Rightarrow> llm \<Rightarrow> loads \<Rightarrow> string \<Rightarrow> (py_exc + json) \<times> effect list" where
  "generate_matching_pairs_with_ai env llm loads summary =
     (let request = pairs_request env summary in
      (case
         (case llm request of
            Inl e \<Rightarrow> Inl e
          | Inr content \<Rightarrow>
              (case read_content content of
                 Inl e \<Rightarrow> Inl e
               | Inr content \<Rightarrow> extract_field loads ''pairs'' fallback_pairs content))
       of
         Inl e \<Rightarrow> Inl (Exception (''Failed to generate matching pairs: '' @ str_exc e))
       | Inr pairs \<Rightarrow> Inr pairs,
       [ChatCompletion request]))"

section \<open>The handler of /api/summarize\<close>

text \<open>
  A response is the JSON body with the status code. The argument \<open>got\<close> is what
  \<^verbatim>\<open>request.get_json()\<close> returns or raises. A value of \<^verbatim>\<open>'url'\<close> that is true but no
  string makes \<^verbatim>\<open>re.search\<close> raise \<^verbatim>\<open>TypeError\<close> (the text is the one of CPython 3.11
  and later). The call of \<^verbatim>\<open>generate_summary_with_ai\<close> passes the transcript only, so
  \<^verbatim>\<open>length\<close> has its default \<^verbatim>\<open>"medium"\<close>. Every exception is caught at the end, printed
  and answered with status 500.
\<close>

type_synonym response = "json \<times> nat"

definition error_body :: "string \<Rightarrow> json" where
  "error_body message = JObject [(''error'', JString message)]"

definition summarize_body ::
  "env \<Rightarrow> ('tl, 'tr) transcript_api \<Rightarrow> llm \<Rightarrow> py_exc + json \<Rightarrow> (py_exc + response) \<times> effect list" where
  "summarize_body env api llm got =
     (case got of
        Inl e \<Rightarrow> (Inl e, [])
      | Inr data \<Rightarrow>
          (case dict_get data ''url'' JNull of
             Inl e \<Rightarrow> (Inl e, [])
           | Inr url \<Rightarrow>
               if \<not> truthy url then (Inr (error_body ''URL is required'', 400), [])
               else
                 (case url of
                    JString u \<Rightarrow>
                      (case extract_video_id u of
                         None \<Rightarrow> (Inr (error_body ''Invalid YouTube URL'', 400), [])
                       | Some video_id \<Rightarrow>
                           if video_id = [] then (Inr (error_body ''Invalid YouTube URL'', 400), [])
                           else
                             (case get_youtube_transcript api video_id of
                                Inl e \<Rightarrow> (Inl e, [])
                              | Inr transcript \<Rightarrow>
                                  (case generate_summary_with_ai env llm transcript ''medium'' of
                                     (Inl e, effects) \<Rightarrow> (Inl e, effects)
                                   | (Inr summary, effects) \<Rightarrow>
                                       (Inr (JObject [(''summary'', JString summary),
                                                      (''transcript'', JString transcript),
                                                      (''video_id'', JString video_id)], 200),
                                        effects))))
                  | _ \<Rightarrow>
                      (Inl (TypeError (''expected string or bytes-like object, got ''
                                        @ [CHR 0x27] @ type_name url @ [CHR 0x27])), []))))"

definition summarize ::
  "env \<Rightarrow> ('tl, 'tr) transcript_api \<Rightarrow> llm \<Rightarrow> py_exc + json \<Rightarrow> response \<times> effect list" where
  "summarize env api llm got =
     (case summarize_body env api llm got of
        (Inr response, effects) \<Rightarrow> (response, effects)
      | (Inl e, effects) \<Rightarrow>
          ((error_body (str_exc e), 500),
           effects @ [Printed (''Error in /api/summarize: '' @ str_exc e @ ''\<newline>'')]))"

section \<open>Notions of the specification\<close>

text \<open>
  The specification speaks of the text from the first opening brace to the last closing
  brace, both included. Written without indices: what comes before the first opening
  brace is dropped, then what comes after the last closing brace.
\<close>

definition first_to_last_brace :: "string \<Rightarrow> string" where
  "first_to_last_brace s =
     rev (dropWhile (\<lambda>c. c \<noteq> CHR ''}'') (rev (dropWhile (\<lambda>c. c \<noteq> CHR ''{'') s)))"

text \<open>
  The data model of the specification: a quiz question has a question text, exactly
  four options, all strings, and an answer that is one of the options.
\<close>

fun is_string :: "json \<Rightarrow> bool" where
  "is_string (JString s) = True"
| "is_string v = False"

definition well_formed_question :: "json \<Rightarrow> bool" where
  "well_formed_question q =
     (case q of
        JObject kvs \<Rightarrow>
          (case (map_of kvs ''question'', map_of kvs ''options'', map_of kvs ''answer'') of
             (Some (JString question), Some (JArray options), Some (JString answer)) \<Rightarrow>
               length options = 4 \<and> list_all is_string options \<and> JString answer \<in> set options
           | _ \<Rightarrow> False)
      | _ \<Rightarrow> False)"

definition all_well_formed :: "json \<Rightarrow> bool" where
  "all_well_formed v = (case v of JArray qs \<Rightarrow> list_all well_formed_question qs | _ \<Rightarrow> False)"

section \<open>Sample inputs\<close>

text \<open>
  Concrete providers and requests on which the theorems below are instantiated. The
  first provider has an English track of two fragments; the second has no English
  track, so that the lookup raises, and one other track.
\<close>

definition sample_api :: "(unit, unit) transcript_api" where
  "sample_api =
     \<lparr> list_transcripts = (\<lambda>video_id. Inr ()),
       find_transcript = (\<lambda>transcript_list codes. Inr ()),
       tracks = (\<lambda>transcript_list. [()]),
       fetch = (\<lambda>transcript. Inr [\<lparr>caption = ''Hello ''\<rparr>, \<lparr>caption = ''world.''\<rparr>]) \<rparr>"


definition sample_llm :: llm where
  "sample_llm request = Inr (Some '' A short summary. '')"

definition sample_request :: "py_exc + json" where
  "sample_request = Inr (JObject [(''url'', JString ''https://youtu.be/abc123'')])"

text \<open>Two more request bodies: an empty URL, and the text \<open>not a url\<close>.\<close>

definition empty_url_request :: "py_exc + json" where
  "empty_url_request = Inr (JObject [(''url'', JString [])])"

definition not_a_url_request :: "py_exc + json" where
  "not_a_url_request = Inr (JObject [(''url'', JString ''not a url'')])"

definition long_transcript :: string where
  "long_transcript = replicate 10000 CHR ''a''"

definition playlist_request :: "py_exc + json" where
  "playlist_request = Inr (JObject [(''url'', JString ''https://www.youtube.com/watch?list=PL1'')])"





text \<open>
  Answers of the chat-completion provider: prose without braces, an answer cut off
  before any closing brace, an answer whose braces enclose no JSON document, a JSON
  object without the expected field, a question with a single option, and an opening
  brace followed by a thousand opening brackets. \<open>sample_loads\<close> is \<^verbatim>\<open>json.loads\<close> on the
  three payloads that occur in the third, fourth and fifth answer, and \<open>deep_loads\<close> on
  the last one (CPython 3.11 with its default recursion limit); no statement below uses
  them on another text.
\<close>

definition prose_llm :: llm where
  "prose_llm request = Inr (Some ''The summary is too short to write a quiz.'')"

definition cut_off_llm :: llm where
  \<open>cut_off_llm request = Inr (Some ''{"questions": ['')\<close>

definition broken_llm :: llm where
  \<open>broken_llm request = Inr (Some ''Sure: {"questions": [oops} done'')\<close>

definition untitled_llm :: llm where
  \<open>untitled_llm request = Inr (Some '' {"title": "Quiz"} '')\<close>

definition one_option_llm :: llm where
  \<open>one_option_llm request =
     Inr (Some ''{"questions": [{"question": "Q?", "options": ["A"], "answer": "Z"}]}'')\<close>

definition deep_payload :: string where
  \<open>deep_payload = ''{"questions": '' @ replicate 1000 CHR ''['' @ ''}''\<close>

definition deep_llm :: llm where
  "deep_llm request = Inr (Some deep_payload)"

definition deep_loads :: loads where
  "deep_loads s =
     (if s = deep_payload then
        Inl (RecursionError
               ''maximum recursion depth exceeded while decoding a JSON array from a unicode string'')
      else Inl (JSONDecodeError ''Expecting value: line 1 column 1 (char 0)''))"

definition sample_loads :: loads where
  \<open>sample_loads s =
     (if s = ''{"title": "Quiz"}'' then Inr (JObject [(''title'', JString ''Quiz'')])
      else if s = ''{"questions": [{"question": "Q?", "options": ["A"], "answer": "Z"}]}'' then
        Inr (JObject [(''questions'',
               JArray [JObject [(''question'', JString ''Q?''),
                                (''options'', JArray [JString ''A'']),
                                (''answer'', JString ''Z'')]])])
      else if s = ''{"questions": [oops}'' then
        Inl (JSONDecodeError ''Expecting value: line 1 column 16 (char 15)'')
      else Inl (JSONDecodeError ''Expecting value: line 1 column 1 (char 0)''))\<close>

section \<open>Properties of the URL resolver\<close>

subsection \<open>The capturing group and the search\<close>

lemma splits_head: "\<exists>ms. splits p s = (takeWhile p s, dropWhile p s) # ms"
  by (induction s) auto

lemma splits_no_run: "takeWhile p s = [] \<Longrightarrow> splits p s = [([], s)]"
  by (cases s) (auto split: if_splits)

lemma matches_capture_none:
  assumes "takeWhile (accepts a) s = []"
  shows "matches (Group (Plus a)) s = []"
  using assms by (simp add: splits_no_run)

lemma matches_capture_some:
  assumes "takeWhile (accepts a) s \<noteq> []"
  shows "\<exists>ms. matches (Group (Plus a)) s =
           (Some (takeWhile (accepts a) s), dropWhile (accepts a) s) # ms"
proof -
  obtain ms where m: "splits (accepts a) s = (takeWhile (accepts a) s, dropWhile (accepts a) s) # ms"
    using splits_head by blast
  have "length s - length (dropWhile (accepts a) s) = length (takeWhile (accepts a) s)"
    by (metis add_diff_cancel_right' length_append takeWhile_dropWhile_id)
  then have "take (length s - length (dropWhile (accepts a) s)) s = takeWhile (accepts a) s"
    by (metis append_eq_conv_conj takeWhile_dropWhile_id)
  then show ?thesis
    using assms by (simp add: m)
qed

lemma run_of_id:
  assumes "vid \<noteq> []" and "\<forall>c\<in>set vid. accepts a c"
    and "post = [] \<or> \<not> accepts a (hd post)"
  shows "takeWhile (accepts a) (vid @ post) = vid" and "dropWhile (accepts a) (vid @ post) = post"
  using assms by (cases post; simp add: takeWhile_tail)+

lemma capture_of_id:
  assumes "vid \<noteq> []" and "\<forall>c\<in>set vid. accepts a c"
    and "post = [] \<or> \<not> accepts a (hd post)"
  shows "\<exists>ms. matches (Group (Plus a)) (vid @ post) = (Some vid, post) # ms"
  using matches_capture_some [of a "vid @ post"] run_of_id [OF assms] assms(1) by simp


lemma pattern1_needs_literal:
  assumes "matches pattern1 s \<noteq> []"
  shows "prefix ''youtube.com/watch?v='' s \<or> prefix ''youtu.be/'' s \<or> prefix ''youtube.com/embed/'' s"
  using assms by (auto simp: pattern1_def split: if_splits)

lemma pattern2_needs_literal:
  assumes "matches pattern2 s \<noteq> []"
  shows "prefix ''youtube.com/watch?'' s"
  using assms by (auto simp: pattern2_def split: if_splits)

lemma pattern1_needs_y: "c \<noteq> CHR ''y'' \<Longrightarrow> matches pattern1 (c # cs) = []"
  using pattern1_needs_literal [of "c # cs"] by auto

lemma pattern2_needs_y: "c \<noteq> CHR ''y'' \<Longrightarrow> matches pattern2 (c # cs) = []"
  using pattern2_needs_literal [of "c # cs"] by auto

lemma search_skip:
  assumes "\<forall>c\<in>set pre. \<forall>cs. matches r (c # cs) = []"
  shows "search r (pre @ s) = search r s"
  using assms by (induction pre) simp_all

lemma search_none:
  assumes "\<forall>t. suffix t s \<longrightarrow> matches r t = []"
  shows "search r s = None"
  using assms
proof (induction s)
  case Nil
  then show ?case by simp
next
  case (Cons c cs)
  have "matches r (c # cs) = []"
    using Cons.prems by simp
  moreover have "search r cs = None"
    using Cons by (simp add: suffix_ConsI)
  ultimately show ?case by simp
qed

lemma search_hit: "matches r s = m # ms \<Longrightarrow> search r s = Some (fst m)"
  by (cases s) simp_all

lemma pattern1_at_literal:
  assumes "vid \<noteq> []" and "\<forall>c\<in>set vid. accepts id_class c"
    and "post = [] \<or> \<not> accepts id_class (hd post)"
  shows "\<exists>ms. matches pattern1 (''youtube.com/watch?v='' @ vid @ post) = (Some vid, post) # ms"
    and "\<exists>ms. matches pattern1 (''youtu.be/'' @ vid @ post) = (Some vid, post) # ms"
    and "\<exists>ms. matches pattern1 (''youtube.com/embed/'' @ vid @ post) = (Some vid, post) # ms"
  using capture_of_id [OF assms] by (auto simp: pattern1_def)

lemma first_pattern_decides:
  "search pattern1 url = Some g \<Longrightarrow> extract_video_id url = g"
  by (simp add: extract_video_id_def patterns_def)

lemma second_pattern_decides:
  "search pattern1 url = None \<Longrightarrow> search pattern2 url = Some g \<Longrightarrow> extract_video_id url = g"
  by (simp add: extract_video_id_def patterns_def)

lemma search_pattern1_after_prefix:
  assumes "CHR ''y'' \<notin> set pre"
  shows "search pattern1 (pre @ s) = search pattern1 s"
proof (rule search_skip)
  show "\<forall>c\<in>set pre. \<forall>cs. matches pattern1 (c # cs) = []"
    using assms pattern1_needs_y by metis
qed

lemma search_pattern2_after_prefix:
  assumes "CHR ''y'' \<notin> set pre"
  shows "search pattern2 (pre @ s) = search pattern2 s"
proof (rule search_skip)
  show "\<forall>c\<in>set pre. \<forall>cs. matches pattern2 (c # cs) = []"
    using assms pattern2_needs_y by metis
qed

lemma found_by_pattern1:
  assumes "CHR ''y'' \<notin> set pre" and "matches pattern1 s = (Some vid, post) # ms"
  shows "extract_video_id (pre @ s) = Some vid"
proof -
  have "search pattern1 s = Some (Some vid)"
    using search_hit [OF assms(2)] by simp
  then have "search pattern1 (pre @ s) = Some (Some vid)"
    by (simp only: search_pattern1_after_prefix [OF assms(1)])
  then show ?thesis
    by (rule first_pattern_decides)
qed

lemma direct_shapes:
  assumes "vid \<noteq> []" and "\<forall>c\<in>set vid. accepts id_class c"
    and "post = [] \<or> \<not> accepts id_class (hd post)"
    and "CHR ''y'' \<notin> set pre"
  shows "extract_video_id (pre @ ''youtube.com/watch?v='' @ vid @ post) = Some vid"
    and "extract_video_id (pre @ ''youtu.be/'' @ vid @ post) = Some vid"
    and "extract_video_id (pre @ ''youtube.com/embed/'' @ vid @ post) = Some vid"
  using pattern1_at_literal [OF assms(1-3)] found_by_pattern1 [OF assms(4)]
  by blast+

subsection \<open>The greedy star\<close>

text \<open>
  A greedy star followed by the rest of the pattern tries the longest run first: the
  matches found further right come before the match at the current position.
\<close>

lemma keep_group: "(case g of None \<Rightarrow> None | Some x \<Rightarrow> Some x) = g"
  by (cases g) simp_all

lemma seq_after_ungrouped:
  "map (\<lambda>(g2, rest2). (case g2 of None \<Rightarrow> None | Some g \<Rightarrow> Some g, rest2)) ms = ms"
  by (induction ms) (auto simp: keep_group)

lemma lit_then: "matches (Seq (Lit p) r) (p @ s) = matches r s"
  by (simp add: seq_after_ungrouped)

lemma concat_ungrouped:
  "concat (map (\<lambda>(g1, rest1).
                  map (\<lambda>(g2, rest2). (case g2 of None \<Rightarrow> g1 | Some g \<Rightarrow> Some g, rest2)) (f rest1))
               (map (\<lambda>(run, rest). (None, rest)) xs)) =
   concat (map (\<lambda>(run, rest). f rest) xs)"
  by (induction xs) (auto simp: seq_after_ungrouped)

lemma matches_star_seq:
  "matches (Seq (Star a) r) s = concat (map (\<lambda>(run, rest). matches r rest) (splits (accepts a) s))"
  by (simp only: matches.simps concat_ungrouped)

lemma rest_only:
  "(\<lambda>(run, rest). f rest) \<circ> (\<lambda>(run, rest). (c # run, rest)) = (\<lambda>(run, rest). f rest)"
  by (auto simp: fun_eq_iff)

lemma star_then_Nil: "matches (Seq (Star a) r) [] = matches r []"
  by (simp add: matches_star_seq del: matches.simps)

lemma star_then_Cons:
  "matches (Seq (Star a) r) (c # cs) =
     (if accepts a c then matches (Seq (Star a) r) cs @ matches r (c # cs)
      else matches r (c # cs))"
  by (simp add: matches_star_seq rest_only del: matches.simps)


lemma v_parameter_needs_literal: "matches v_parameter s \<noteq> [] \<Longrightarrow> prefix ''v='' s"
  by (auto simp: v_parameter_def split: if_splits)

lemma star_v_parameter_none:
  assumes "\<not> sublist ''v='' s"
  shows "matches (Seq (Star Dot) v_parameter) s = []"
  using assms
proof (induction s)
  case Nil
  have "matches v_parameter [] = []"
    using v_parameter_needs_literal [of "[]"] by auto
  then show ?case
    by (simp only: star_then_Nil)
next
  case (Cons c cs)
  have "\<not> prefix ''v='' (c # cs)" and "\<not> sublist ''v='' cs"
    using Cons.prems by (simp_all add: sublist_Cons_right)
  then have "matches v_parameter (c # cs) = []" and "matches (Seq (Star Dot) v_parameter) cs = []"
    using v_parameter_needs_literal [of "c # cs"] Cons.IH by auto
  then show ?case
    by (simp only: star_then_Cons) simp
qed

lemma star_v_parameter_at_v:
  assumes "vid \<noteq> []" and "\<forall>c\<in>set vid. accepts id_class c"
    and "post = [] \<or> \<not> accepts id_class (hd post)"
    and "\<not> sublist ''v='' (vid @ post)"
  shows "\<exists>ms. matches (Seq (Star Dot) v_parameter) (''v='' @ vid @ post) = (Some vid, post) # ms"
proof -
  obtain ms where c: "matches (Group (Plus id_class)) (vid @ post) = (Some vid, post) # ms"
    using capture_of_id [OF assms(1-3)] by blast
  have t: "matches v_parameter (''v='' @ vid @ post) = (Some vid, post) # ms"
    by (simp only: v_parameter_def lit_then c)
  have e: "matches v_parameter (CHR ''='' # vid @ post) = []"
    using v_parameter_needs_literal [of "CHR ''='' # vid @ post"] by auto
  have n: "matches (Seq (Star Dot) v_parameter) (vid @ post) = []"
    using assms(4) by (rule star_v_parameter_none)
  have "matches (Seq (Star Dot) v_parameter) (CHR ''v'' # CHR ''='' # vid @ post) =
          matches v_parameter (CHR ''v'' # CHR ''='' # vid @ post)"
    by (simp only: star_then_Cons [of Dot v_parameter] n e) simp
  moreover have "''v='' @ vid @ post = CHR ''v'' # CHR ''='' # vid @ post"
    by simp
  ultimately show ?thesis
    using t by (simp only:) blast
qed

lemma star_keeps_first:
  assumes "\<forall>c\<in>set q. accepts a c" and "matches (Seq (Star a) r) s = m # ms"
  shows "\<exists>ms'. matches (Seq (Star a) r) (q @ s) = m # ms'"
  using assms
proof (induction q)
  case Nil
  then show ?case by simp
next
  case (Cons c q)
  then obtain ms' where "matches (Seq (Star a) r) (q @ s) = m # ms'"
    by auto
  moreover have "accepts a c"
    using Cons.prems by simp
  ultimately show ?case
    by (simp only: append_Cons star_then_Cons) simp
qed

lemma pattern2_unfold:
  "matches pattern2 (''youtube.com/watch?'' @ s) = matches (Seq (Star Dot) v_parameter) s"
  by (simp only: pattern2_def lit_then)

subsection \<open>The URL shapes\<close>

lemma no_literal_no_match:
  assumes "\<not> sublist ''youtube.com/watch?'' s" and "\<not> sublist ''youtu.be/'' s"
    and "\<not> sublist ''youtube.com/embed/'' s"
  shows "search pattern1 s = None" and "search pattern2 s = None"
proof -
  have w: "prefix ''youtube.com/watch?v='' t \<Longrightarrow> prefix ''youtube.com/watch?'' t" for t
    by (auto simp: prefix_def)
  have "matches pattern1 t = []" if "suffix t s" for t
  proof (rule ccontr)
    assume "matches pattern1 t \<noteq> []"
    then have "prefix ''youtube.com/watch?'' t \<or> prefix ''youtu.be/'' t
                 \<or> prefix ''youtube.com/embed/'' t"
      using pattern1_needs_literal [of t] w by blast
    with that assms show False
      unfolding sublist_altdef' by blast
  qed
  then show "search pattern1 s = None"
    by (intro search_none) blast
  have "matches pattern2 t = []" if "suffix t s" for t
  proof (rule ccontr)
    assume "matches pattern2 t \<noteq> []"
    then have "prefix ''youtube.com/watch?'' t"
      by (rule pattern2_needs_literal)
    with that assms show False
      unfolding sublist_altdef' by blast
  qed
  then show "search pattern2 s = None"
    by (intro search_none) blast
qed

lemma pattern1_not_in_query:
  assumes "\<not> sublist ''youtube.com/watch?v='' s" and "\<not> sublist ''youtu.be/'' s"
    and "\<not> sublist ''youtube.com/embed/'' s"
  shows "search pattern1 s = None"
proof -
  have "matches pattern1 t = []" if "suffix t s" for t
  proof (rule ccontr)
    assume "matches pattern1 t \<noteq> []"
    then have "prefix ''youtube.com/watch?v='' t \<or> prefix ''youtu.be/'' t
                 \<or> prefix ''youtube.com/embed/'' t"
      by (rule pattern1_needs_literal)
    with that assms show False
      unfolding sublist_altdef' by blast
  qed
  then show ?thesis
    by (intro search_none) blast
qed

lemma not_v_prefix:
  assumes "q \<noteq> []" and "\<not> prefix ''v='' q"
  shows "\<not> prefix ''v='' (q @ ''v='' @ s)"
proof (cases q)
  case Nil
  with assms show ?thesis by simp
next
  case (Cons c q')
  with assms show ?thesis
    by (cases q') auto
qed

lemma reordered_shape:
  assumes "vid \<noteq> []" and "\<forall>c\<in>set vid. accepts id_class c"
    and "post = [] \<or> \<not> accepts id_class (hd post)"
    and "CHR ''y'' \<notin> set pre"
    and "q \<noteq> []" and "\<not> prefix ''v='' q" and "CHR 0x0A \<notin> set q"
    and "\<not> sublist ''youtube.com/watch?v='' (q @ ''v='' @ vid @ post)"
    and "\<not> sublist ''youtu.be/'' (q @ ''v='' @ vid @ post)"
    and "\<not> sublist ''youtube.com/embed/'' (q @ ''v='' @ vid @ post)"
    and "\<not> sublist ''v='' (vid @ post)"
  shows "extract_video_id (pre @ ''youtube.com/watch?'' @ q @ ''v='' @ vid @ post) = Some vid"
proof -
  define rest where "rest = q @ ''v='' @ vid @ post"
  obtain ms where "matches (Seq (Star Dot) v_parameter) (''v='' @ vid @ post) = (Some vid, post) # ms"
    using star_v_parameter_at_v [OF assms(1-3) assms(11)] by blast
  moreover have "\<forall>c\<in>set q. accepts Dot c"
    using assms(7) by auto
  ultimately obtain ms' where "matches (Seq (Star Dot) v_parameter) rest = (Some vid, post) # ms'"
    unfolding rest_def using star_keeps_first by blast
  then have "matches pattern2 (''youtube.com/watch?'' @ rest) = (Some vid, post) # ms'"
    by (simp only: pattern2_unfold)
  then have "search pattern2 (''youtube.com/watch?'' @ rest) = Some (Some vid)"
    using search_hit by fastforce
  then have two: "search pattern2 (pre @ ''youtube.com/watch?'' @ rest) = Some (Some vid)"
    by (simp only: search_pattern2_after_prefix [OF assms(4)])
  have "\<not> prefix ''v='' rest"
    unfolding rest_def using assms(5,6) by (rule not_v_prefix)
  then have "matches pattern1 (''youtube.com/watch?'' @ rest) = []"
    using pattern1_needs_literal [of "''youtube.com/watch?'' @ rest"] by auto
  then have "search pattern1 (''youtube.com/watch?'' @ rest) =
               search pattern1 (''outube.com/watch?'' @ rest)"
    by simp
  also have "\<dots> = search pattern1 rest"
    by (rule search_pattern1_after_prefix) simp
  also have "\<dots> = None"
    unfolding rest_def using assms(8-10) by (rule pattern1_not_in_query)
  finally have "search pattern1 (pre @ ''youtube.com/watch?'' @ rest) = None"
    by (simp only: search_pattern1_after_prefix [OF assms(4)])
  then show ?thesis
    unfolding rest_def [symmetric] using two by (rule second_pattern_decides)
qed

lemma id_class_chars:
  "accepts id_class c \<longleftrightarrow> c \<notin> {CHR ''&'', CHR 0x0A, CHR ''?'', CHR ''#''}"
  by (simp add: id_class_def)

text \<open>
  The shapes that are resolved. Let the identifier be not empty and free of the four
  delimiters \<open>&\<close>, line feed, \<open>?\<close> and \<open>#\<close>, let it be followed by nothing or by a
  delimiter, and let no \<open>y\<close> come before the host name. Then the resolver returns the
  identifier for \<open>youtube.com/watch?v=\<close>, \<open>youtu.be/\<close> and \<open>youtube.com/embed/\<close>, and
  for the reordered query under further conditions, the last of which is that no other
  \<open>v=\<close> follows. Whenever the first pattern matches, its group is the result.
\<close>

lemma shapes_resolved:
  assumes "vid \<noteq> []" and "\<forall>c\<in>set vid. c \<notin> {CHR ''&'', CHR 0x0A, CHR ''?'', CHR ''#''}"
    and "post = [] \<or> hd post \<in> {CHR ''&'', CHR 0x0A, CHR ''?'', CHR ''#''}"
    and "CHR ''y'' \<notin> set pre"
  shows "extract_video_id (pre @ ''youtube.com/watch?v='' @ vid @ post) = Some vid
       \<and> extract_video_id (pre @ ''youtu.be/'' @ vid @ post) = Some vid
       \<and> extract_video_id (pre @ ''youtube.com/embed/'' @ vid @ post) = Some vid
       \<and> (q \<noteq> [] \<and> \<not> prefix ''v='' q \<and> CHR 0x0A \<notin> set q
            \<and> \<not> sublist ''youtube.com/watch?v='' (q @ ''v='' @ vid @ post)
            \<and> \<not> sublist ''youtu.be/'' (q @ ''v='' @ vid @ post)
            \<and> \<not> sublist ''youtube.com/embed/'' (q @ ''v='' @ vid @ post)
            \<and> \<not> sublist ''v='' (vid @ post) \<longrightarrow>
          extract_video_id (pre @ ''youtube.com/watch?'' @ q @ ''v='' @ vid @ post) = Some vid)
       \<and> (search pattern1 url = Some g \<longrightarrow> extract_video_id url = g)"
proof -
  have 2: "\<forall>c\<in>set vid. accepts id_class c"
    using assms(2) by (simp only: id_class_chars) 
  have 3: "post = [] \<or> \<not> accepts id_class (hd post)"
    using assms(3) by (simp only: id_class_chars) simp
  show ?thesis
    using direct_shapes [OF assms(1) 2 3 assms(4)] reordered_shape [OF assms(1) 2 3 assms(4)]
      first_pattern_decides
    by blast
qed

lemma shapes_resolved_sample:
  "extract_video_id ''https://youtube.com/watch?v=abc123&t=5'' = Some ''abc123''
   \<and> extract_video_id ''https://youtu.be/abc123&t=5'' = Some ''abc123''
   \<and> extract_video_id ''https://youtube.com/embed/abc123&t=5'' = Some ''abc123''
   \<and> extract_video_id ''https://youtube.com/watch?feature=share&v=abc123&t=5'' = Some ''abc123''"
proof -
  have 1: "''abc123'' \<noteq> []"
    and 2: "\<forall>c\<in>set ''abc123''. c \<notin> {CHR ''&'', CHR 0x0A, CHR ''?'', CHR ''#''}"
    and 3: "''&t=5'' = [] \<or> hd ''&t=5'' \<in> {CHR ''&'', CHR 0x0A, CHR ''?'', CHR ''#''}"
    and 4: "CHR ''y'' \<notin> set ''https://''"
    by simp_all
  have 5: "''feature=share&'' \<noteq> [] \<and> \<not> prefix ''v='' ''feature=share&''
            \<and> CHR 0x0A \<notin> set ''feature=share&''
            \<and> \<not> sublist ''youtube.com/watch?v='' (''feature=share&'' @ ''v='' @ ''abc123'' @ ''&t=5'')
            \<and> \<not> sublist ''youtu.be/'' (''feature=share&'' @ ''v='' @ ''abc123'' @ ''&t=5'')
            \<and> \<not> sublist ''youtube.com/embed/'' (''feature=share&'' @ ''v='' @ ''abc123'' @ ''&t=5'')
            \<and> \<not> sublist ''v='' (''abc123'' @ ''&t=5'')"
    by (simp add: sublist_Cons_right)
  show ?thesis
    using 5 shapes_resolved [OF 1 2 3 4, of "''feature=share&''"]
    by simp
qed

text \<open>
  C5. The resolver does not return the identifier for every reordered query. The star of
  the second pattern is greedy, so the group is taken after the last \<open>v=\<close> of the line:
  with a later parameter whose name ends in \<open>v\<close> the result is that parameter's value,
  where the first pattern, given the same parameters after a leading \<open>v=\<close>, returns the
  identifier.
\<close>

theorem reordered_query_takes_last_v:
  "extract_video_id ''https://www.youtube.com/watch?feature=share&v=abc123&rev=2'' = Some ''2''
   \<and> extract_video_id ''https://www.youtube.com/watch?v=abc123&rev=2'' = Some ''abc123''"
  by (simp add: extract_video_id_def patterns_def pattern1_def pattern2_def v_parameter_def
        id_class_def)

text \<open>
  C6 (as amended). A string in which neither pattern matches anywhere, that is, one
  containing none of the recognized shapes, is resolved to \<open>None\<close>; and when it is not
  empty and is the value of \<open>url\<close> in the request body, the handler answers with status
  400 and the error \<open>Invalid YouTube URL\<close>, sending nothing to a provider.
\<close>

theorem unrecognized_url:
  assumes "search pattern1 url = None" and "search pattern2 url = None"
  shows "extract_video_id url = None
       \<and> (url \<noteq> [] \<and> map_of data ''url'' = Some (JString url) \<longrightarrow>
            summarize env api llm (Inr (JObject data)) =
              ((JObject [(''error'', JString ''Invalid YouTube URL'')], 400), []))"
proof -
  have "extract_video_id url = None"
    using assms by (simp add: extract_video_id_def patterns_def)
  then show ?thesis
    by (simp add: summarize_def summarize_body_def error_body_def)
qed

theorem unrecognized_url_witness:
  "extract_video_id ''not a url'' = None
   \<and> summarize Map.empty sample_api sample_llm not_a_url_request =
        ((JObject [(''error'', JString ''Invalid YouTube URL'')], 400), [])
   \<and> extract_video_id ''https://www.youtube.com/watch?list=PL1'' = None
   \<and> summarize Map.empty sample_api sample_llm playlist_request =
        ((JObject [(''error'', JString ''Invalid YouTube URL'')], 400), [])"
proof -
  have 1: "search pattern1 ''not a url'' = None" and 2: "search pattern2 ''not a url'' = None"
    by (simp_all add: pattern1_def pattern2_def v_parameter_def id_class_def)
  have 3: "search pattern1 ''https://www.youtube.com/watch?list=PL1'' = None"
    and 4: "search pattern2 ''https://www.youtube.com/watch?list=PL1'' = None"
    by (simp_all add: pattern1_def pattern2_def v_parameter_def id_class_def)
  show ?thesis
    using unrecognized_url [OF 1 2, of "[(''url'', JString ''not a url'')]" Map.empty sample_api sample_llm]
      unrecognized_url [OF 3 4, of "[(''url'', JString ''https://www.youtube.com/watch?list=PL1'')]"
        Map.empty sample_api sample_llm]
    by (simp add: not_a_url_request_def playlist_request_def)
qed

text \<open>
  The statement of the specification fails for the empty string: it contains none of the
  shapes, and the handler answers \<open>URL is required\<close>.
\<close>

theorem empty_url_counterexample:
  "\<not> sublist ''youtube.com/watch?'' [] \<and> \<not> sublist ''youtu.be/'' []
   \<and> \<not> sublist ''youtube.com/embed/'' []
   \<and> extract_video_id [] = None
   \<and> summarize Map.empty sample_api sample_llm empty_url_request =
        ((JObject [(''error'', JString ''URL is required'')], 400), [])"
  by (simp add: summarize_def summarize_body_def error_body_def empty_url_request_def
        extract_video_id_def patterns_def pattern1_def pattern2_def v_parameter_def)

section \<open>Properties of the transcript fetcher\<close>

lemma join_space_concat:
  "join '' '' (x # xs) = x @ concat (map (\<lambda>y. '' '' @ y) xs)"
  by (induction xs arbitrary: x) simp_all

text \<open>
  C7. When the provider lists the tracks, a track is chosen and its fragments are
  fetched, \<open>get_youtube_transcript\<close> returns the first fragment's text followed by every
  later fragment's text with exactly one space put in front of it, in the provider's
  order. Spaces inside the fragments stay: the fragments \<open>Hello \<close> and \<open>world.\<close> give a
  transcript with two spaces.
\<close>

theorem transcript_space_joined:
  assumes "list_transcripts api video_id = Inr transcript_list"
    and "choose_track api transcript_list = Inr transcript"
    and "fetch api transcript = Inr transcript_data"
  shows "get_youtube_transcript api video_id =
           Inr (case transcript_data of
                  [] \<Rightarrow> []
                | part # parts \<Rightarrow> caption part @ concat (map (\<lambda>p. '' '' @ caption p) parts))"
  using assms
  by (cases transcript_data) (simp_all add: get_youtube_transcript_def join_space_concat comp_def)

theorem transcript_space_joined_witness:
  "get_youtube_transcript sample_api ''abc123'' = Inr ''Hello  world.''"
proof -
  have 1: "list_transcripts sample_api ''abc123'' = Inr ()"
    by (simp add: sample_api_def)
  have 2: "choose_track sample_api () = Inr ()"
    by (simp add: sample_api_def choose_track_def)
  have 3: "fetch sample_api () = Inr [\<lparr>caption = ''Hello ''\<rparr>, \<lparr>caption = ''world.''\<rparr>]"
    by (simp add: sample_api_def)
  show ?thesis
    using transcript_space_joined [OF 1 2 3] by simp
qed




section \<open>Properties of the summary request\<close>

lemma py_slice_from_start: "0 \<le> n \<Longrightarrow> py_slice s 0 n = take (nat n) s"
  by (simp add: py_slice_def slice_bound_def min_def)

text \<open>
  C8. \<open>generate_summary_with_ai\<close> sends one request. Its prompt is the text written out
  below: the first 4000 characters of the transcript (\<open>take 4000\<close>) stand between the
  line \<open>Transcript:\<close> and the remark on the limit. The prompt has 286 characters besides
  the instruction and that part, which is never longer than 4000 characters and has
  exactly 4000 when the transcript is longer; and two transcripts with the same first
  4000 characters give the same request, so nothing beyond them is sent.
\<close>

theorem summary_prompt_truncated:
  "snd (generate_summary_with_ai env llm transcript length_name) =
     [ChatCompletion (summary_request env transcript length_name)]
   \<and> messages (summary_request env transcript length_name) =
       [(''user'',
         ''\<newline>        Summarize the following YouTube video transcript ''
         @ length_instruction length_name
         @ ''.\<newline>        \<newline>        Transcript:\<newline>        ''
         @ take 4000 transcript
         @ ''  # Limit to first 4000 characters to avoid token limits\<newline>        \<newline>        Please provide a comprehensive summary that captures the main points, key insights, and important details.\<newline>        '')]
   \<and> length (snd (hd (messages (summary_request env transcript length_name)))) =
       286 + length (length_instruction length_name) + min 4000 (length transcript)
   \<and> (4000 < length transcript \<longrightarrow> length (take 4000 transcript) = 4000)
   \<and> (take 4000 transcript = take 4000 other \<longrightarrow>
        summary_request env transcript length_name = summary_request env other length_name)"
  by (simp add: generate_summary_with_ai_def summary_request_def summary_prompt_def
        py_slice_from_start Let_def)

theorem summary_prompt_truncated_witness:
  "length long_transcript = 10000 \<and>
   snd (generate_summary_with_ai Map.empty sample_llm long_transcript ''medium'') =
     [ChatCompletion (summary_request Map.empty long_transcript ''medium'')] \<and>
   messages (summary_request Map.empty long_transcript ''medium'') =
     [(''user'',
       ''\<newline>        Summarize the following YouTube video transcript in 1-2 paragraphs.\<newline>        \<newline>        Transcript:\<newline>        ''
       @ replicate 4000 CHR ''a''
       @ ''  # Limit to first 4000 characters to avoid token limits\<newline>        \<newline>        Please provide a comprehensive summary that captures the main points, key insights, and important details.\<newline>        '')] \<and>
   length (snd (hd (messages (summary_request Map.empty long_transcript ''medium'')))) = 4303 \<and>
   length (take 4000 long_transcript) = 4000 \<and>
   summary_request Map.empty long_transcript ''medium'' =
     summary_request Map.empty (replicate 4000 CHR ''a'') ''medium''"
proof -
  note t = summary_prompt_truncated [of Map.empty sample_llm long_transcript "''medium''"
             "replicate 4000 CHR ''a''"]
  have 1: "snd (generate_summary_with_ai Map.empty sample_llm long_transcript ''medium'') =
     [ChatCompletion (summary_request Map.empty long_transcript ''medium'')]"
    by (rule t [THEN conjunct1])
  have 2: "messages (summary_request Map.empty long_transcript ''medium'') =
     [(''user'',
       ''\<newline>        Summarize the following YouTube video transcript in 1-2 paragraphs.\<newline>        \<newline>        Transcript:\<newline>        ''
       @ replicate 4000 CHR ''a''
       @ ''  # Limit to first 4000 characters to avoid token limits\<newline>        \<newline>        Please provide a comprehensive summary that captures the main points, key insights, and important details.\<newline>        '')]"
    using t [THEN conjunct2, THEN conjunct1]
    by (simp add: length_instruction_def length_instructions_def long_transcript_def)
  have 3: "length (snd (hd (messages (summary_request Map.empty long_transcript ''medium'')))) = 4303"
    using t [THEN conjunct2, THEN conjunct2, THEN conjunct1]
    by (simp add: length_instruction_def length_instructions_def long_transcript_def)
  have 4: "length (take 4000 long_transcript) = 4000"
    using t [THEN conjunct2, THEN conjunct2, THEN conjunct2, THEN conjunct1]
    by (simp add: long_transcript_def)
  have 5: "summary_request Map.empty long_transcript ''medium'' =
     summary_request Map.empty (replicate 4000 CHR ''a'') ''medium''"
    using t [THEN conjunct2, THEN conjunct2, THEN conjunct2, THEN conjunct2]
    by (simp add: long_transcript_def)
  have 0: "length long_transcript = 10000"
    by (simp add: long_transcript_def)
  show ?thesis
    using 0 1 2 3 4 5 by (intro conjI)
qed

lemma medium_prompt_not_short:
  "summary_prompt ''in 1-2 paragraphs'' e \<noteq> summary_prompt ''in 2-3 sentences'' e'"
  by (simp add: summary_prompt_def)

lemma medium_prompt_not_long:
  "summary_prompt ''in 1-2 paragraphs'' e \<noteq>
   summary_prompt ''in 3-4 paragraphs with detailed analysis'' e'"
  by (simp add: summary_prompt_def)

lemma summarize_body_requests:
  "set (snd (summarize_body env api llm got))
     \<subseteq> range (\<lambda>t. ChatCompletion (summary_request env t ''medium''))"
  by (auto simp: summarize_body_def generate_summary_with_ai_def Let_def
           split: sum.splits option.splits json.splits if_splits prod.splits)

text \<open>
  C10. Every request that the handler of /api/summarize sends to the chat-completion
  provider is the summary request for the length \<open>medium\<close>: its prompt is the template
  with the instruction \<open>in 1-2 paragraphs\<close>, and it is no prompt built with the
  instruction for \<open>short\<close> or for \<open>long\<close>, whatever text fills the transcript hole.
\<close>

theorem summarize_uses_medium:
  assumes "ChatCompletion request \<in> set (snd (summarize env api llm got))"
  shows "\<exists>transcript.
           request = summary_request env transcript ''medium'' \<and>
           messages request =
             [(''user'', summary_prompt ''in 1-2 paragraphs'' (take 4000 transcript))] \<and>
           (\<forall>e. messages request \<noteq> [(''user'', summary_prompt ''in 2-3 sentences'' e)]) \<and>
           (\<forall>e. messages request \<noteq>
                  [(''user'', summary_prompt ''in 3-4 paragraphs with detailed analysis'' e)])"
proof -
  from assms have "ChatCompletion request \<in> set (snd (summarize_body env api llm got))"
    by (auto simp: summarize_def split: prod.splits sum.splits)
  with summarize_body_requests [of env api llm got]
  obtain t where r: "request = summary_request env t ''medium''"
    by auto
  have m: "messages request = [(''user'', summary_prompt ''in 1-2 paragraphs'' (take 4000 t))]"
    by (simp add: r summary_request_def length_instruction_def length_instructions_def
                  py_slice_from_start)
  show ?thesis
    using r m medium_prompt_not_short medium_prompt_not_long by auto
qed

theorem summarize_uses_medium_witness:
  "ChatCompletion (summary_request Map.empty ''Hello  world.'' ''medium'')
     \<in> set (snd (summarize Map.empty sample_api sample_llm sample_request)) \<and>
   (\<exists>transcript.
      summary_request Map.empty ''Hello  world.'' ''medium'' =
        summary_request Map.empty transcript ''medium'' \<and>
      messages (summary_request Map.empty ''Hello  world.'' ''medium'') =
        [(''user'', summary_prompt ''in 1-2 paragraphs'' (take 4000 transcript))] \<and>
      (\<forall>e. messages (summary_request Map.empty ''Hello  world.'' ''medium'') \<noteq>
             [(''user'', summary_prompt ''in 2-3 sentences'' e)]) \<and>
      (\<forall>e. messages (summary_request Map.empty ''Hello  world.'' ''medium'') \<noteq>
             [(''user'', summary_prompt ''in 3-4 paragraphs with detailed analysis'' e)]))"
proof -
  have sent: "ChatCompletion (summary_request Map.empty ''Hello  world.'' ''medium'')
     \<in> set (snd (summarize Map.empty sample_api sample_llm sample_request))"
    by (simp add: summarize_def summarize_body_def sample_request_def sample_api_def
          sample_llm_def extract_video_id_def patterns_def pattern1_def pattern2_def
          v_parameter_def id_class_def get_youtube_transcript_def choose_track_def
          generate_summary_with_ai_def read_content_def Let_def)
  show ?thesis
    using sent summarize_uses_medium [OF sent] by simp
qed

section \<open>Properties of the parsing of the provider's answer\<close>

subsection \<open>Indices and the text between the braces\<close>

lemma py_find_takeWhile:
  "py_find c s = (if c \<in> set s then int (length (takeWhile (\<lambda>x. x \<noteq> c) s)) else -1)"
  by (induction s) (auto simp: Let_def)

lemma length_takeWhile_lt:
  "x \<in> set xs \<Longrightarrow> \<not> P x \<Longrightarrow> length (takeWhile P xs) < length xs"
  by (induction xs) auto

lemma takeWhile_all_append:
  "\<forall>x\<in>set xs. P x \<Longrightarrow> takeWhile P (xs @ ys) = xs @ takeWhile P ys"
  by (induction xs) auto

lemma dropWhile_all_append:
  "\<forall>x\<in>set xs. P x \<Longrightarrow> dropWhile P (xs @ ys) = dropWhile P ys"
  by (induction xs) auto

lemma py_rfind_takeWhile:
  "py_rfind c s =
     (if c \<in> set s then int (length s) - 1 - int (length (takeWhile (\<lambda>x. x \<noteq> c) (rev s))) else -1)"
proof (induction s)
  case Nil
  then show ?case by simp
next
  case (Cons x xs)
  show ?case
  proof (cases "c \<in> set xs")
    case True
    then have "c \<in> set (rev xs)" and "\<not> c \<noteq> c"
      by simp_all
    then have "takeWhile (\<lambda>x. x \<noteq> c) (rev xs @ [x]) = takeWhile (\<lambda>x. x \<noteq> c) (rev xs)"
      by (rule takeWhile_append1)
    with True Cons length_takeWhile_lt [of c "rev xs" "\<lambda>x. x \<noteq> c"] show ?thesis
      by (simp add: Let_def)
  next
    case False
    then have "\<forall>y\<in>set (rev xs). y \<noteq> c"
      by auto
    then have "takeWhile (\<lambda>x. x \<noteq> c) (rev xs @ [x]) = rev xs @ takeWhile (\<lambda>x. x \<noteq> c) [x]"
      by (rule takeWhile_all_append)
    with False Cons show ?thesis
      by (auto simp: Let_def)
  qed
qed

lemma slice_first_to_last:
  assumes "CHR ''{'' \<in> set s" and "CHR ''}'' \<in> set s"
  shows "py_slice s (py_find CHR ''{'' s) (py_rfind CHR ''}'' s + 1) = first_to_last_brace s"
proof -
  define P where "P = (\<lambda>c. c \<noteq> CHR ''{'')"
  define Q where "Q = (\<lambda>c. c \<noteq> CHR ''}'')"
  define i where "i = length (takeWhile P s)"
  define k where "k = length (takeWhile Q (rev s))"
  define t where "t = dropWhile P s"
  have i_le: "i \<le> length s"
    by (simp add: i_def length_takeWhile_le)
  have k_lt: "k < length s"
    using assms(2) length_takeWhile_lt [of "CHR ''}''" "rev s" Q]
    by (simp add: k_def Q_def)
  have t: "t = drop i s"
    by (simp add: t_def i_def dropWhile_eq_drop)
  have s: "s = takeWhile P s @ t"
    by (simp add: t_def)
  have f: "py_find CHR ''{'' s = int i"
    using assms(1) by (simp add: py_find_takeWhile i_def P_def)
  have r: "py_rfind CHR ''}'' s + 1 = int (length s - k)"
    using assms(2) k_lt by (simp add: py_rfind_takeWhile k_def Q_def)
  have lhs: "py_slice s (py_find CHR ''{'' s) (py_rfind CHR ''}'' s + 1) = take (length s - k - i) t"
    using i_le by (simp add: f r py_slice_def slice_bound_def t Let_def min_def)
  have rhs: "first_to_last_brace s = take (length t - length (takeWhile Q (rev t))) t"
    unfolding first_to_last_brace_def P_def [symmetric] Q_def [symmetric] t_def [symmetric]
    by (metis dropWhile_eq_drop length_rev rev_drop rev_rev_ident)
  have lt: "length t = length s - i"
    by (simp add: t)
  show ?thesis
  proof (cases "CHR ''}'' \<in> set t")
    case True
    then obtain x where "x \<in> set (rev t)" "\<not> Q x"
      by (auto simp: Q_def)
    then have "takeWhile Q (rev t @ rev (takeWhile P s)) = takeWhile Q (rev t)"
      by (simp add: takeWhile_append1)
    moreover have "rev s = rev t @ rev (takeWhile P s)"
      by (metis rev_append s)
    ultimately have "k = length (takeWhile Q (rev t))"
      by (simp add: k_def)
    then show ?thesis
      using lhs rhs lt by (simp add: ac_simps)
  next
    case False
    then have all: "\<forall>x\<in>set (rev t). Q x"
      by (auto simp: Q_def)
    then have tw: "takeWhile Q (rev t) = rev t"
      by (simp add: takeWhile_eq_all_conv)
    have "rev s = rev t @ rev (takeWhile P s)"
      by (metis rev_append s)
    then have "takeWhile Q (rev s) = rev t @ takeWhile Q (rev (takeWhile P s))"
      using takeWhile_all_append [OF all] by simp
    then have "length t \<le> k"
      by (simp add: k_def)
    then have "length s - k - i = 0"
      using lt by simp
    then show ?thesis
      using lhs rhs tw by simp
  qed
qed

lemma dropWhile_weaker:
  assumes "\<And>c. p c \<Longrightarrow> q c"
  shows "dropWhile q (dropWhile p s) = dropWhile q s"
  using assms by (induction s) auto

lemma brace_not_space: "is_space c \<Longrightarrow> c \<noteq> CHR ''{'' \<and> c \<noteq> CHR ''}''"
  by (auto simp: is_space_def)

lemma first_to_last_brace_strip: "first_to_last_brace (strip s) = first_to_last_brace s"
proof -
  define P where "P = (\<lambda>c. c \<noteq> CHR ''{'')"
  define Q where "Q = (\<lambda>c. c \<noteq> CHR ''}'')"
  define F where "F = (\<lambda>u. rev (dropWhile Q (rev (dropWhile P u))))"
  have sp_P: "\<And>c. is_space c \<Longrightarrow> P c" and sp_Q: "\<And>c. is_space c \<Longrightarrow> Q c"
    using brace_not_space by (auto simp: P_def Q_def)
  have right: "F (rev (dropWhile is_space (rev u))) = F u" for u
  proof -
    define y where "y = rev (takeWhile is_space (rev u))"
    define x where "x = rev (dropWhile is_space (rev u))"
    have u: "u = x @ y"
      by (metis rev_append rev_rev_ident takeWhile_dropWhile_id x_def y_def)
    have y_sp: "\<forall>c\<in>set y. is_space c"
      by (auto simp: y_def dest: set_takeWhileD)
    show ?thesis
    proof (cases "\<forall>c\<in>set x. P c")
      case True
      then have "\<forall>c\<in>set u. P c"
        using y_sp sp_P by (auto simp: u)
      then have du: "dropWhile P u = []"
        by simp
      have dx: "dropWhile P x = []"
        using True by simp
      have "F u = []"
        unfolding F_def du by simp
      moreover have "F x = []"
        unfolding F_def dx by simp
      ultimately show ?thesis
        unfolding x_def [symmetric] by simp
    next
      case False
      then obtain c where "c \<in> set x" "\<not> P c"
        by auto
      then have "dropWhile P (x @ y) = dropWhile P x @ y"
        by (simp add: dropWhile_append1)
      moreover have "\<forall>c\<in>set (rev y). Q c"
        using y_sp sp_Q by simp
      then have "dropWhile Q (rev y @ z) = dropWhile Q z" for z
        by (rule dropWhile_all_append)
      ultimately have "F (x @ y) = F x"
        by (simp add: F_def)
      then show ?thesis
        unfolding x_def [symmetric] by (simp add: u)
    qed
  qed
  have left: "F (dropWhile is_space u) = F u" for u
    by (simp add: F_def dropWhile_weaker [of is_space P] sp_P)
  have "F (strip s) = F s"
    by (simp add: strip_def right left)
  then show ?thesis
    by (simp add: F_def first_to_last_brace_def P_def Q_def)
qed

lemma strip_keeps: "\<not> is_space c \<Longrightarrow> c \<in> set (strip s) \<longleftrightarrow> c \<in> set s"
proof -
  assume c: "\<not> is_space c"
  have a: "c \<in> set (dropWhile is_space u) \<longleftrightarrow> c \<in> set u" for u
    using c by (induction u) auto
  show ?thesis
    by (simp add: strip_def a)
qed

lemma extract_field_no_braces:
  assumes "CHR ''{'' \<notin> set content \<or> CHR ''}'' \<notin> set content"
  shows "extract_field loads field fallback content = Inl (Exception ''No JSON found in response'')"
  using assms by (auto simp: extract_field_def py_find_takeWhile py_rfind_takeWhile Let_def)

lemma extract_field_braces:
  assumes "CHR ''{'' \<in> set content" and "CHR ''}'' \<in> set content"
  shows "extract_field loads field fallback content =
           (case loads (first_to_last_brace content) of
              Inl (JSONDecodeError m) \<Rightarrow> Inr fallback
            | Inl e \<Rightarrow> Inl e
            | Inr data \<Rightarrow> dict_get data field (JArray []))"
proof -
  have idx: "py_find CHR ''{'' content \<noteq> -1" "py_rfind CHR ''}'' content + 1 \<noteq> 0"
    using assms length_takeWhile_lt [of "CHR ''}''" "rev content" "\<lambda>x. x \<noteq> CHR ''}''"]
    by (simp_all add: py_find_takeWhile py_rfind_takeWhile)
  have dg: "(case dict_get data field (JArray []) of Inl (JSONDecodeError m) \<Rightarrow> Inr fallback | r \<Rightarrow> r)
              = dict_get data field (JArray [])" for data
    by (cases data) (simp_all split: option.splits)
  show ?thesis
    using idx slice_first_to_last [OF assms]
    by (simp add: extract_field_def Let_def dg split: sum.splits py_exc.splits)
qed

lemma quiz_of_reply:
  assumes "llm (quiz_request env summary) = Inr (Some raw)"
  shows "fst (generate_quiz_with_ai env llm loads summary) =
           (if raw = [] then Inl (Exception ''Failed to generate quiz: No content received from AI'')
            else case extract_field loads ''questions'' fallback_questions (strip raw) of
                   Inl e \<Rightarrow> Inl (Exception (''Failed to generate quiz: '' @ str_exc e))
                 | Inr questions \<Rightarrow> Inr questions)"
  using assms by (simp add: generate_quiz_with_ai_def read_content_def Let_def)

lemma pairs_of_reply:
  assumes "llm (pairs_request env summary) = Inr (Some raw)"
  shows "fst (generate_matching_pairs_with_ai env llm loads summary) =
           (if raw = [] then
              Inl (Exception ''Failed to generate matching pairs: No content received from AI'')
            else case extract_field loads ''pairs'' fallback_pairs (strip raw) of
                   Inl e \<Rightarrow> Inl (Exception (''Failed to generate matching pairs: '' @ str_exc e))
                 | Inr pairs \<Rightarrow> Inr pairs)"
  using assms by (simp add: generate_matching_pairs_with_ai_def read_content_def Let_def)

lemma brace_in_strip:
  "CHR ''{'' \<in> set (strip s) \<longleftrightarrow> CHR ''{'' \<in> set s"
  "CHR ''}'' \<in> set (strip s) \<longleftrightarrow> CHR ''}'' \<in> set s"
  by (simp_all add: strip_keeps is_space_def)

lemma extract_field_stripped:
  assumes "CHR ''{'' \<in> set raw" and "CHR ''}'' \<in> set raw"
  shows "extract_field loads field fallback (strip raw) =
           (case loads (first_to_last_brace raw) of
              Inl (JSONDecodeError m) \<Rightarrow> Inr fallback
            | Inl e \<Rightarrow> Inl e
            | Inr data \<Rightarrow> dict_get data field (JArray []))"
  using assms extract_field_braces [of "strip raw" loads field fallback]
  by (simp add: brace_in_strip first_to_last_brace_strip)

lemma extract_field_stripped_no_braces:
  assumes "CHR ''{'' \<notin> set raw \<or> CHR ''}'' \<notin> set raw"
  shows "extract_field loads field fallback (strip raw) =
           Inl (Exception ''No JSON found in response'')"
proof -
  have "CHR ''{'' \<notin> set (strip raw) \<or> CHR ''}'' \<notin> set (strip raw)"
    using assms by (simp add: brace_in_strip)
  then show ?thesis
    by (rule extract_field_no_braces)
qed

subsection \<open>The two generators\<close>

text \<open>
  When decoding the text between the braces raises \<open>JSONDecodeError\<close>, each function
  returns its fallback, a list of exactly one element.
\<close>

lemma decode_error_gives_fallback:
  assumes "CHR ''{'' \<in> set raw" and "CHR ''}'' \<in> set raw"
    and "loads (first_to_last_brace raw) = Inl (JSONDecodeError m)"
  shows "(llm (quiz_request env summary) = Inr (Some raw) \<longrightarrow>
            fst (generate_quiz_with_ai env llm loads summary) = Inr fallback_questions)
       \<and> (llm (pairs_request env summary) = Inr (Some raw) \<longrightarrow>
            fst (generate_matching_pairs_with_ai env llm loads summary) = Inr fallback_pairs)
       \<and> (\<exists>q. fallback_questions = JArray [q]) \<and> (\<exists>p. fallback_pairs = JArray [p])"
proof -
  have "raw \<noteq> []"
    using assms(1) by auto
  then show ?thesis
    using assms
    by (simp add: quiz_of_reply pairs_of_reply extract_field_stripped
          fallback_questions_def fallback_pairs_def)
qed

lemma decode_error_sample:
  "fst (generate_quiz_with_ai Map.empty broken_llm sample_loads ''A summary.'') = Inr fallback_questions
   \<and> fst (generate_matching_pairs_with_ai Map.empty broken_llm sample_loads ''A summary.'') = Inr fallback_pairs"
proof -
  have 1: \<open>CHR ''{'' \<in> set ''Sure: {"questions": [oops} done''\<close>
    and 2: \<open>CHR ''}'' \<in> set ''Sure: {"questions": [oops} done''\<close>
    by simp_all
  have 3: \<open>sample_loads (first_to_last_brace ''Sure: {"questions": [oops} done'') =
             Inl (JSONDecodeError ''Expecting value: line 1 column 16 (char 15)'')\<close>
    by (simp add: first_to_last_brace_def sample_loads_def)
  show ?thesis
    using 1 2 3
      decode_error_gives_fallback [where raw = \<open>''Sure: {"questions": [oops} done''\<close>
        and loads = sample_loads and llm = broken_llm and env = Map.empty
        and summary = "''A summary.''"]
    by (simp add: broken_llm_def)
qed

lemma fallback_needs_decode_error:
  assumes "raw \<noteq> []"
    and "(case extract_field loads field fallback (strip raw) of
            Inl e \<Rightarrow> Inl (Exception (prefix_text @ str_exc e))
          | Inr v \<Rightarrow> Inr v) = Inr fallback"
  shows "CHR ''{'' \<in> set raw \<and> CHR ''}'' \<in> set raw
       \<and> ((\<exists>m. loads (first_to_last_brace raw) = Inl (JSONDecodeError m))
            \<or> (\<exists>kvs. loads (first_to_last_brace raw) = Inr (JObject kvs)
                  \<and> map_of kvs field = Some fallback)
            \<or> (\<exists>kvs. loads (first_to_last_brace raw) = Inr (JObject kvs)
                  \<and> map_of kvs field = None \<and> fallback = JArray []))"
proof -
  have braces: "CHR ''{'' \<in> set raw \<and> CHR ''}'' \<in> set raw"
  proof (rule ccontr)
    assume "\<not> ?thesis"
    then have "CHR ''{'' \<notin> set raw \<or> CHR ''}'' \<notin> set raw"
      by simp
    from extract_field_stripped_no_braces [OF this] assms(2) show False
      by simp
  qed
  then have ef: "extract_field loads field fallback (strip raw) =
           (case loads (first_to_last_brace raw) of
              Inl (JSONDecodeError m) \<Rightarrow> Inr fallback
            | Inl e \<Rightarrow> Inl e
            | Inr data \<Rightarrow> dict_get data field (JArray []))"
    by (simp add: extract_field_stripped)
  show ?thesis
  proof (cases "loads (first_to_last_brace raw)")
    case (Inl e)
    with assms(2) ef braces show ?thesis
      by (cases e) simp_all
  next
    case (Inr data)
    with assms(2) ef braces show ?thesis
      by (cases data) (auto split: option.splits)
  qed
qed

text \<open>
  C1 (as amended). When the provider's answer lacks an opening brace or lacks a closing
  brace, \<open>generate_quiz_with_ai\<close> fails with \<open>Failed to generate quiz: No JSON found in
  response\<close> and \<open>generate_matching_pairs_with_ai\<close> with \<open>Failed to generate matching
  pairs: No JSON found in response\<close>; for the empty answer the reason is \<open>No content
  received from AI\<close>. The exception raised for missing braces is no
  \<open>JSONDecodeError\<close>, so the fallback is not returned: a function returns its fallback
  only when the answer has both braces and decoding the text between them raises
  \<open>JSONDecodeError\<close>, or yields an object that itself holds the fallback under the field.
\<close>

theorem no_braces_is_an_error:
  "(llm (quiz_request env summary) = Inr (Some raw)
      \<and> (CHR ''{'' \<notin> set raw \<or> CHR ''}'' \<notin> set raw) \<longrightarrow>
      fst (generate_quiz_with_ai env llm loads summary) =
        Inl (Exception (''Failed to generate quiz: '' @
               (if raw = [] then ''No content received from AI''
                else ''No JSON found in response''))))
   \<and> (llm (pairs_request env summary) = Inr (Some raw)
      \<and> (CHR ''{'' \<notin> set raw \<or> CHR ''}'' \<notin> set raw) \<longrightarrow>
      fst (generate_matching_pairs_with_ai env llm loads summary) =
        Inl (Exception (''Failed to generate matching pairs: '' @
               (if raw = [] then ''No content received from AI''
                else ''No JSON found in response''))))
   \<and> (llm (quiz_request env summary) = Inr (Some raw)
      \<and> fst (generate_quiz_with_ai env llm loads summary) = Inr fallback_questions \<longrightarrow>
      CHR ''{'' \<in> set raw \<and> CHR ''}'' \<in> set raw
      \<and> ((\<exists>m. loads (first_to_last_brace raw) = Inl (JSONDecodeError m))
           \<or> (\<exists>kvs. loads (first_to_last_brace raw) = Inr (JObject kvs)
                 \<and> map_of kvs ''questions'' = Some fallback_questions)))
   \<and> (llm (pairs_request env summary) = Inr (Some raw)
      \<and> fst (generate_matching_pairs_with_ai env llm loads summary) = Inr fallback_pairs \<longrightarrow>
      CHR ''{'' \<in> set raw \<and> CHR ''}'' \<in> set raw
      \<and> ((\<exists>m. loads (first_to_last_brace raw) = Inl (JSONDecodeError m))
           \<or> (\<exists>kvs. loads (first_to_last_brace raw) = Inr (JObject kvs)
                 \<and> map_of kvs ''pairs'' = Some fallback_pairs)))"
proof (intro conjI impI)
  assume a: "llm (quiz_request env summary) = Inr (Some raw)
      \<and> (CHR ''{'' \<notin> set raw \<or> CHR ''}'' \<notin> set raw)"
  then show "fst (generate_quiz_with_ai env llm loads summary) =
        Inl (Exception (''Failed to generate quiz: '' @
               (if raw = [] then ''No content received from AI''
                else ''No JSON found in response'')))"
    using extract_field_stripped_no_braces [of raw loads "''questions''" fallback_questions]
    by (simp add: quiz_of_reply)
next
  assume a: "llm (pairs_request env summary) = Inr (Some raw)
      \<and> (CHR ''{'' \<notin> set raw \<or> CHR ''}'' \<notin> set raw)"
  then show "fst (generate_matching_pairs_with_ai env llm loads summary) =
        Inl (Exception (''Failed to generate matching pairs: '' @
               (if raw = [] then ''No content received from AI''
                else ''No JSON found in response'')))"
    using extract_field_stripped_no_braces [of raw loads "''pairs''" fallback_pairs]
    by (simp add: pairs_of_reply)
next
  assume a: "llm (quiz_request env summary) = Inr (Some raw)
      \<and> fst (generate_quiz_with_ai env llm loads summary) = Inr fallback_questions"
  then have r: "llm (quiz_request env summary) = Inr (Some raw)"
    and f: "fst (generate_quiz_with_ai env llm loads summary) = Inr fallback_questions"
    by simp_all
  note reply = quiz_of_reply [where llm = llm and loads = loads, OF r]
  from f have ne: "raw \<noteq> []"
    by (auto simp: reply)
  with f have "(case extract_field loads ''questions'' fallback_questions (strip raw) of
            Inl e \<Rightarrow> Inl (Exception (''Failed to generate quiz: '' @ str_exc e))
          | Inr v \<Rightarrow> Inr v) = Inr fallback_questions"
    by (simp add: reply)
  from fallback_needs_decode_error [OF ne this]
  show "CHR ''{'' \<in> set raw" and "CHR ''}'' \<in> set raw"
    and "(\<exists>m. loads (first_to_last_brace raw) = Inl (JSONDecodeError m))
           \<or> (\<exists>kvs. loads (first_to_last_brace raw) = Inr (JObject kvs)
                 \<and> map_of kvs ''questions'' = Some fallback_questions)"
    by (auto simp: fallback_questions_def)
next
  assume a: "llm (pairs_request env summary) = Inr (Some raw)
      \<and> fst (generate_matching_pairs_with_ai env llm loads summary) = Inr fallback_pairs"
  then have r: "llm (pairs_request env summary) = Inr (Some raw)"
    and f: "fst (generate_matching_pairs_with_ai env llm loads summary) = Inr fallback_pairs"
    by simp_all
  note reply = pairs_of_reply [where llm = llm and loads = loads, OF r]
  from f have ne: "raw \<noteq> []"
    by (auto simp: reply)
  with f have "(case extract_field loads ''pairs'' fallback_pairs (strip raw) of
            Inl e \<Rightarrow> Inl (Exception (''Failed to generate matching pairs: '' @ str_exc e))
          | Inr v \<Rightarrow> Inr v) = Inr fallback_pairs"
    by (simp add: reply)
  from fallback_needs_decode_error [OF ne this]
  show "CHR ''{'' \<in> set raw" and "CHR ''}'' \<in> set raw"
    and "(\<exists>m. loads (first_to_last_brace raw) = Inl (JSONDecodeError m))
           \<or> (\<exists>kvs. loads (first_to_last_brace raw) = Inr (JObject kvs)
                 \<and> map_of kvs ''pairs'' = Some fallback_pairs)"
    by (auto simp: fallback_pairs_def)
qed

theorem no_braces_is_an_error_witness:
  \<open>fst (generate_quiz_with_ai Map.empty cut_off_llm sample_loads ''A summary.'') =
     Inl (Exception ''Failed to generate quiz: No JSON found in response'')
   \<and> fst (generate_matching_pairs_with_ai Map.empty cut_off_llm sample_loads ''A summary.'') =
     Inl (Exception ''Failed to generate matching pairs: No JSON found in response'')
   \<and> fst (generate_quiz_with_ai Map.empty broken_llm sample_loads ''A summary.'') = Inr fallback_questions
   \<and> fst (generate_matching_pairs_with_ai Map.empty broken_llm sample_loads ''A summary.'') =
       Inr fallback_pairs
   \<and> (\<exists>m. sample_loads (first_to_last_brace ''Sure: {"questions": [oops} done'') =
            Inl (JSONDecodeError m))\<close>
proof -
  note cut = no_braces_is_an_error [where raw = \<open>''{"questions": [''\<close> and llm = cut_off_llm
          and env = Map.empty and summary = "''A summary.''" and loads = sample_loads]
  note broken = no_braces_is_an_error [where raw = \<open>''Sure: {"questions": [oops} done''\<close>
          and llm = broken_llm and env = Map.empty and summary = "''A summary.''"
          and loads = sample_loads]
  have 1: \<open>fst (generate_quiz_with_ai Map.empty cut_off_llm sample_loads ''A summary.'') =
     Inl (Exception ''Failed to generate quiz: No JSON found in response'')\<close>
    using cut [THEN conjunct1] by (simp add: cut_off_llm_def)
  have 2: \<open>fst (generate_matching_pairs_with_ai Map.empty cut_off_llm sample_loads ''A summary.'') =
     Inl (Exception ''Failed to generate matching pairs: No JSON found in response'')\<close>
    using cut [THEN conjunct2, THEN conjunct1] by (simp add: cut_off_llm_def)
  have q: \<open>broken_llm (quiz_request Map.empty ''A summary.'') =
             Inr (Some ''Sure: {"questions": [oops} done'')\<close>
    and p: \<open>broken_llm (pairs_request Map.empty ''A summary.'') =
             Inr (Some ''Sure: {"questions": [oops} done'')\<close>
    by (simp_all add: broken_llm_def)
  have 3: "fst (generate_quiz_with_ai Map.empty broken_llm sample_loads ''A summary.'') =
             Inr fallback_questions"
    and 4: "fst (generate_matching_pairs_with_ai Map.empty broken_llm sample_loads ''A summary.'') =
             Inr fallback_pairs"
    using decode_error_sample by simp_all
  have n: \<open>\<forall>kvs. sample_loads (first_to_last_brace ''Sure: {"questions": [oops} done'') \<noteq>
            Inr (JObject kvs)\<close>
    by (simp add: first_to_last_brace_def sample_loads_def)
  have 5: \<open>\<exists>m. sample_loads (first_to_last_brace ''Sure: {"questions": [oops} done'') =
            Inl (JSONDecodeError m)\<close>
    using broken [THEN conjunct2, THEN conjunct2, THEN conjunct1] q 3 n by blast
  have 6: \<open>\<exists>m. sample_loads (first_to_last_brace ''Sure: {"questions": [oops} done'') =
            Inl (JSONDecodeError m)\<close>
    using broken [THEN conjunct2, THEN conjunct2, THEN conjunct2] p 4 n by blast
  have 7: \<open>\<exists>m. sample_loads (first_to_last_brace ''Sure: {"questions": [oops} done'') =
            Inl (JSONDecodeError m)\<close>
    using 5 6 by simp
  show ?thesis
    using 1 2 3 4 7 by (intro conjI)
qed

text \<open>The statement of the specification fails on prose without braces: both functions raise.\<close>

theorem prose_reply_counterexample:
  "fst (generate_quiz_with_ai Map.empty prose_llm sample_loads ''A summary.'') =
     Inl (Exception ''Failed to generate quiz: No JSON found in response'')
   \<and> fst (generate_matching_pairs_with_ai Map.empty prose_llm sample_loads ''A summary.'') =
     Inl (Exception ''Failed to generate matching pairs: No JSON found in response'')"
  by (simp add: generate_quiz_with_ai_def generate_matching_pairs_with_ai_def prose_llm_def
        read_content_def strip_def is_space_def extract_field_def Let_def)

lemma first_to_last_brace_deep: "first_to_last_brace deep_payload = deep_payload"
  by (simp add: first_to_last_brace_def deep_payload_def)

text \<open>
  C2. Not every text between the braces that is no JSON document gives the fallback. On
  an opening brace followed by a thousand opening brackets the decoder raises
  \<open>RecursionError\<close>, which the clause for \<open>JSONDecodeError\<close> does not catch, and both
  functions fail where the comment in the source promises the fallback whenever JSON
  parsing fails.
\<close>

theorem deep_nesting_is_an_error:
  "deep_loads (first_to_last_brace deep_payload) =
     Inl (RecursionError
            ''maximum recursion depth exceeded while decoding a JSON array from a unicode string'')
   \<and> fst (generate_quiz_with_ai Map.empty deep_llm deep_loads ''A summary.'') =
     Inl (Exception ''Failed to generate quiz: maximum recursion depth exceeded while decoding a JSON array from a unicode string'')
   \<and> fst (generate_matching_pairs_with_ai Map.empty deep_llm deep_loads ''A summary.'') =
     Inl (Exception ''Failed to generate matching pairs: maximum recursion depth exceeded while decoding a JSON array from a unicode string'')"
proof -
  have b: "CHR ''{'' \<in> set deep_payload" "CHR ''}'' \<in> set deep_payload" "deep_payload \<noteq> []"
    by (simp_all add: deep_payload_def)
  have d: "deep_loads (first_to_last_brace deep_payload) =
     Inl (RecursionError
            ''maximum recursion depth exceeded while decoding a JSON array from a unicode string'')"
    by (simp add: first_to_last_brace_deep deep_loads_def)
  have q: "deep_llm (quiz_request Map.empty ''A summary.'') = Inr (Some deep_payload)"
    and p: "deep_llm (pairs_request Map.empty ''A summary.'') = Inr (Some deep_payload)"
    by (simp_all add: deep_llm_def)
  show ?thesis
    using b d
    by (simp add: quiz_of_reply [where llm = deep_llm, OF q]
          pairs_of_reply [where llm = deep_llm, OF p] extract_field_stripped)
qed

text \<open>
  C3. When the text from the first opening brace to the last closing brace decodes to
  an object without the field \<open>questions\<close> (for the pairs
  function: \<open>pairs\<close>), the function returns the empty list, which is not the fallback.
\<close>

theorem missing_field_gives_empty:
  assumes "CHR ''{'' \<in> set raw" and "CHR ''}'' \<in> set raw"
    and "loads (first_to_last_brace raw) = Inr (JObject kvs)"
  shows "(llm (quiz_request env summary) = Inr (Some raw) \<and> map_of kvs ''questions'' = None \<longrightarrow>
            fst (generate_quiz_with_ai env llm loads summary) = Inr (JArray []))
       \<and> (llm (pairs_request env summary) = Inr (Some raw) \<and> map_of kvs ''pairs'' = None \<longrightarrow>
            fst (generate_matching_pairs_with_ai env llm loads summary) = Inr (JArray []))
       \<and> JArray [] \<noteq> fallback_questions \<and> JArray [] \<noteq> fallback_pairs"
proof -
  have "raw \<noteq> []"
    using assms(1) by auto
  then show ?thesis
    using assms
    by (simp add: quiz_of_reply pairs_of_reply extract_field_stripped
          fallback_questions_def fallback_pairs_def)
qed

theorem missing_field_gives_empty_witness:
  "fst (generate_quiz_with_ai Map.empty untitled_llm sample_loads ''A summary.'') = Inr (JArray [])
   \<and> fst (generate_matching_pairs_with_ai Map.empty untitled_llm sample_loads ''A summary.'') = Inr (JArray [])"
proof -
  have 1: \<open>CHR ''{'' \<in> set '' {"title": "Quiz"} ''\<close>
    and 2: \<open>CHR ''}'' \<in> set '' {"title": "Quiz"} ''\<close>
    by simp_all
  have 3: \<open>sample_loads (first_to_last_brace '' {"title": "Quiz"} '') =
             Inr (JObject [(''title'', JString ''Quiz'')])\<close>
    by (simp add: first_to_last_brace_def sample_loads_def)
  show ?thesis
    using 1 2 3
      missing_field_gives_empty [where raw = \<open>'' {"title": "Quiz"} ''\<close>
        and loads = sample_loads and llm = untitled_llm and env = Map.empty
        and summary = "''A summary.''"]
    by (simp add: untitled_llm_def)
qed

lemma fallback_well_formed: "all_well_formed fallback_questions"
  by (simp add: all_well_formed_def fallback_questions_def well_formed_question_def)

text \<open>
  C9 (as amended). A value returned by \<open>generate_quiz_with_ai\<close> is either the fallback,
  whose question has exactly four string options and an answer among them, or the value
  that the decoded object holds under \<open>questions\<close> (the empty list when the field is
  missing), returned as decoded: the options and the answer of a decoded question are
  not checked.
\<close>

theorem quiz_result_unchecked:
  assumes "fst (generate_quiz_with_ai env llm loads summary) = Inr v"
  shows "(v = fallback_questions \<and> all_well_formed v)
       \<or> (\<exists>raw kvs. llm (quiz_request env summary) = Inr (Some raw)
            \<and> loads (first_to_last_brace raw) = Inr (JObject kvs)
            \<and> v = (case map_of kvs ''questions'' of Some questions \<Rightarrow> questions | None \<Rightarrow> JArray []))"
proof -
  from assms obtain raw where raw: "llm (quiz_request env summary) = Inr (Some raw)"
    by (auto simp: generate_quiz_with_ai_def read_content_def Let_def
             split: sum.splits option.splits)
  note reply = quiz_of_reply [where llm = llm and loads = loads, OF raw]
  from assms have ne: "raw \<noteq> []"
    by (auto simp: reply)
  have braces: "CHR ''{'' \<in> set raw \<and> CHR ''}'' \<in> set raw"
  proof (rule ccontr)
    assume "\<not> ?thesis"
    then have "CHR ''{'' \<notin> set raw \<or> CHR ''}'' \<notin> set raw"
      by simp
    from extract_field_stripped_no_braces [OF this] assms ne show False
      by (simp add: reply)
  qed
  show ?thesis
  proof (cases "loads (first_to_last_brace raw)")
    case (Inl e)
    with assms ne braces have "v = fallback_questions"
      by (cases e) (simp_all add: reply extract_field_stripped)
    then show ?thesis
      by (simp add: fallback_well_formed)
  next
    case (Inr data)
    with assms ne braces obtain kvs where "data = JObject kvs"
      by (cases data) (simp_all add: reply extract_field_stripped)
    with Inr assms ne braces raw show ?thesis
      by (auto simp: reply extract_field_stripped split: option.splits)
  qed
qed

theorem quiz_result_unchecked_witness:
  "fst (generate_quiz_with_ai Map.empty one_option_llm sample_loads ''A summary.'') =
     Inr (JArray [JObject [(''question'', JString ''Q?''),
                           (''options'', JArray [JString ''A'']),
                           (''answer'', JString ''Z'')]])
   \<and> (\<exists>raw kvs. one_option_llm (quiz_request Map.empty ''A summary.'') = Inr (Some raw)
            \<and> sample_loads (first_to_last_brace raw) = Inr (JObject kvs)
            \<and> map_of kvs ''questions'' =
                Some (JArray [JObject [(''question'', JString ''Q?''),
                           (''options'', JArray [JString ''A'']),
                           (''answer'', JString ''Z'')]]))"
proof -
  have r: "fst (generate_quiz_with_ai Map.empty one_option_llm sample_loads ''A summary.'') =
     Inr (JArray [JObject [(''question'', JString ''Q?''),
                           (''options'', JArray [JString ''A'']),
                           (''answer'', JString ''Z'')]])"
    by (simp add: generate_quiz_with_ai_def one_option_llm_def read_content_def strip_def
        is_space_def extract_field_def py_slice_def slice_bound_def sample_loads_def Let_def)
  have n: "JArray [JObject [(''question'', JString ''Q?''),
                           (''options'', JArray [JString ''A'']),
                           (''answer'', JString ''Z'')]] \<noteq> fallback_questions"
    by (simp add: fallback_questions_def)
  show ?thesis
    using r n quiz_result_unchecked [OF r]
    by (auto split: option.splits simp: fallback_questions_def)
qed

text \<open>
  The statement of the specification fails on a decoded question with one option and an answer that is
  not among the options.
\<close>

theorem one_option_counterexample:
  "fst (generate_quiz_with_ai Map.empty one_option_llm sample_loads ''A summary.'') =
     Inr (JArray [JObject [(''question'', JString ''Q?''),
                           (''options'', JArray [JString ''A'']),
                           (''answer'', JString ''Z'')]])
   \<and> \<not> all_well_formed (JArray [JObject [(''question'', JString ''Q?''),
                           (''options'', JArray [JString ''A'']),
                           (''answer'', JString ''Z'')]])"
  by (simp add: generate_quiz_with_ai_def one_option_llm_def read_content_def strip_def
        is_space_def extract_field_def py_slice_def slice_bound_def sample_loads_def Let_def
        all_well_formed_def well_formed_question_def)

end
